theory Spec2Isabelle
  imports Complex_Main "HOL-Library.Signed_Division" "HOL-Library.Log_Nat"
begin

text \<open>
  The loyalty core of the confectionery loyalty system: the Express routes that record
  a transaction and redeem a reward, the loyalty service (points, bonus awards, tier
  evaluation), the authentication middleware in front of the routes, and the commission
  preview of the revenue contract. Each route is a function from the database and the
  request to the answer and the database after it; what a handler throws is the left
  summand of the answer. Requests are served one after the other: interleavings of
  concurrent requests and the events emitted to the sockets are outside this model.
\<close>

section \<open>Data model\<close>

text \<open>
  The enumerations of the database schema (\<^verbatim>\<open>backend/prisma/migrations\<close>). The claim
  status \<^verbatim>\<open>PENDING\<close> is written \<open>PENDING_CLAIM\<close>, since the partner status has a
  member of the same name.
\<close>

datatype PartnerTier = BRONZE | SILVER | GOLD

datatype PartnerStatus = PENDING | ACTIVE | SUSPENDED | BANNED

datatype TransactionType = PURCHASE | BONUS | REFERRAL | PROMOTION

datatype ClaimStatus = PENDING_CLAIM | APPROVED | REJECTED | FULFILLED

text \<open>
  The rows of the tables the loyalty routes read and write. \<^verbatim>\<open>BIGINT\<close> and
  \<^verbatim>\<open>INTEGER\<close> columns are \<^typ>\<open>int\<close>: the range checks of the storage engine are
  outside this model. Generated columns (row ids, timestamps) are left out.
\<close>

record LoyaltyPoints =
  balance :: int
  lifetimeEarned :: int
  lifetimeRedeemed :: int

text \<open>
  The table \<^verbatim>\<open>loyalty_points\<close> has a unique, cascading foreign key to
  \<^verbatim>\<open>partners\<close>: a row of it is the optional relation \<open>loyaltyPoints\<close> of its
  partner, as \<^verbatim>\<open>include: { loyaltyPoints: true }\<close> presents it.
\<close>

record Partner =
  tier :: PartnerTier
  status :: PartnerStatus
  loyaltyPoints :: "LoyaltyPoints option"

record Reward =
  pointsRequired :: int
  available :: int
  maxClaims :: int
  totalClaimed :: int
  isActive :: bool

record ClaimedReward =
  claim_partnerId :: string
  claim_rewardId :: string
  pointsSpent :: int
  claim_status :: ClaimStatus

record Transaction =
  tx_partnerId :: string
  amount :: int
  pointsEarned :: int
  tx_type :: TransactionType
  description :: "string option"

text \<open>
  The database: tables keyed by their primary key; the append-only tables
  \<^verbatim>\<open>transactions\<close> and \<^verbatim>\<open>claimed_rewards\<close> as lists in order of creation. Of an
  admin only the column \<^verbatim>\<open>is_active\<close> matters here.
\<close>

record db =
  partners :: "string \<rightharpoonup> Partner"
  admins :: "string \<rightharpoonup> bool"
  rewards :: "string \<rightharpoonup> Reward"
  transactions :: "Transaction list"
  claimedRewards :: "ClaimedReward list"

text \<open>
  What a handler can throw: the codes of \<^verbatim>\<open>AppError\<close>, a failed schema validation
  (\<open>VALIDATION_ERROR\<close>), the two failures of \<^verbatim>\<open>jwt.verify\<close>, Prisma's
  \<^verbatim>\<open>P2025\<close> (an update of a row that does not exist) and the \<^verbatim>\<open>RangeError\<close> of
  \<^verbatim>\<open>BigInt\<close> on a number that is not whole or not finite.
\<close>

datatype Error =
    UNAUTHORIZED
  | INVALID_TOKEN
  | TOKEN_EXPIRED
  | ACCOUNT_INVALID
  | FORBIDDEN
  | VALIDATION_ERROR
  | NOT_FOUND
  | ACCOUNT_NOT_ACTIVE
  | REWARD_NOT_FOUND
  | REWARD_INACTIVE
  | REWARD_OUT_OF_STOCK
  | POINTS_NOT_FOUND
  | INSUFFICIENT_POINTS
  | P2025
  | RangeError

section \<open>Authentication middleware (\<^verbatim>\<open>middleware/auth.ts\<close>)\<close>

datatype UserType = partner_user | admin_user

record JwtPayload =
  sub :: string
  jwt_type :: UserType

text \<open>
  The \<^verbatim>\<open>Authorization\<close> header of a request: absent (or not a bearer token), a
  token that \<^verbatim>\<open>jwt.verify\<close> refuses as invalid or as expired, or a token with its
  decoded payload.
\<close>

datatype Authorization = NoBearer | InvalidJwt | ExpiredJwt | Bearer JwtPayload

record User =
  user_id :: string
  user_type :: UserType

definition authenticate :: "db \<Rightarrow> Authorization \<Rightarrow> Error + User" where
  "authenticate s auth =
     (case auth of
        NoBearer \<Rightarrow> Inl UNAUTHORIZED
      | InvalidJwt \<Rightarrow> Inl INVALID_TOKEN
      | ExpiredJwt \<Rightarrow> Inl TOKEN_EXPIRED
      | Bearer decoded \<Rightarrow>
          (case jwt_type decoded of
             partner_user \<Rightarrow>
               (case partners s (sub decoded) of
                  None \<Rightarrow> Inl ACCOUNT_INVALID
                | Some partner \<Rightarrow>
                    if status partner = BANNED then Inl ACCOUNT_INVALID
                    else Inr \<lparr>user_id = sub decoded, user_type = jwt_type decoded\<rparr>)
           | admin_user \<Rightarrow>
               (case admins s (sub decoded) of
                  None \<Rightarrow> Inl ACCOUNT_INVALID
                | Some active \<Rightarrow>
                    if \<not> active then Inl ACCOUNT_INVALID
                    else Inr \<lparr>user_id = sub decoded, user_type = jwt_type decoded\<rparr>)))"

definition requirePartner :: "User \<Rightarrow> Error + User" where
  "requirePartner user =
     (if user_type user \<noteq> partner_user then Inl FORBIDDEN else Inr user)"

text \<open>
  A route \<^verbatim>\<open>router.post(path, authenticate, requirePartner, handler)\<close>: the handler
  runs for the authenticated partner; an error of the middleware ends the request with
  the database as it was.
\<close>

definition partnerRoute ::
  "(db \<Rightarrow> string \<Rightarrow> 'b \<Rightarrow> (Error + 'r) \<times> db) \<Rightarrow> db \<Rightarrow> Authorization \<Rightarrow> 'b \<Rightarrow> (Error + 'r) \<times> db" where
  "partnerRoute handler s auth body =
     (case authenticate s auth of
        Inl e \<Rightarrow> (Inl e, s)
      | Inr user \<Rightarrow>
          (case requirePartner user of
             Inl e \<Rightarrow> (Inl e, s)
           | Inr u \<Rightarrow> handler s (user_id u) body))"

section \<open>The two Prisma calls on \<^verbatim>\<open>loyaltyPoints\<close>\<close>

text \<open>\<^verbatim>\<open>prisma.loyaltyPoints.findUnique({ where: { partnerId } })\<close>.\<close>

definition findLoyaltyPoints :: "db \<Rightarrow> string \<Rightarrow> LoyaltyPoints option" where
  "findLoyaltyPoints s partnerId =
     (case partners s partnerId of
        None \<Rightarrow> None
      | Some partner \<Rightarrow> loyaltyPoints partner)"

text \<open>
  \<^verbatim>\<open>prisma.loyaltyPoints.update({ where: { partnerId }, data })\<close>: the updated row
  and the database, or \<open>None\<close> when there is no such row (Prisma throws
  \<^verbatim>\<open>P2025\<close>).
\<close>

definition updateLoyaltyPoints ::
  "db \<Rightarrow> string \<Rightarrow> (LoyaltyPoints \<Rightarrow> LoyaltyPoints) \<Rightarrow> (LoyaltyPoints \<times> db) option" where
  "updateLoyaltyPoints s partnerId f =
     (case partners s partnerId of
        None \<Rightarrow> None
      | Some partner \<Rightarrow>
          (case loyaltyPoints partner of
             None \<Rightarrow> None
           | Some lp \<Rightarrow>
               Some (f lp,
                     s\<lparr>partners :=
                         (partners s)(partnerId \<mapsto> partner\<lparr>loyaltyPoints := Some (f lp)\<rparr>)\<rparr>)))"

section \<open>JavaScript numbers\<close>

text \<open>
  A JavaScript \<^verbatim>\<open>number\<close> is an IEEE 754 double. A finite double is modelled by the
  real number it denotes. Of the operations the routes use, \<^verbatim>\<open>Math.floor\<close>,
  \<^verbatim>\<open>Math.round\<close> and the comparison with zero are exact on finite doubles; the
  product \<^verbatim>\<open>*\<close> is not: it is the double nearest to the exact product, a tie going
  to the even significand, and it is \<^verbatim>\<open>Infinity\<close> when that is \<open>2^1024\<close> or more in
  magnitude. A request whose amount is itself not finite is outside the model.
\<close>

text \<open>\<open>2^e\<close> for an integer exponent.\<close>

definition pow2 :: "int \<Rightarrow> real" where
  "pow2 e = (if 0 \<le> e then 2 ^ nat e else 1 / 2 ^ nat (- e))"

text \<open>
  The binary exponent of a real that is not zero, \<open>floor (log2 |x|)\<close>, from the bit
  length of an integer: of the whole part of \<open>|x|\<close> from 1 on, of the reciprocal below.
\<close>

definition binade :: "real \<Rightarrow> int" where
  "binade x =
     (if 1 \<le> \<bar>x\<bar> then bitlen \<lfloor>\<bar>x\<bar>\<rfloor> - 1 else - bitlen (\<lceil>1 / \<bar>x\<bar>\<rceil> - 1))"

text \<open>The nearest integer, a half going to the even one.\<close>

definition round_half_even :: "real \<Rightarrow> int" where
  "round_half_even y =
     (let n = \<lfloor>y\<rfloor>; r = y - of_int n
      in if r < 1 / 2 then n
         else if 1 / 2 < r then n + 1
         else if even n then n else n + 1)"

text \<open>
  Rounding to the nearest double: 53 significant bits, so the last place of \<open>x\<close> is
  \<open>2^(binade x - 52)\<close>, and \<open>2^-1074\<close> for the subnormal numbers below \<open>2^-1022\<close>.
\<close>

definition fl :: "real \<Rightarrow> real" where
  "fl x =
     (let e = max (binade x) (- 1022) - 52
      in of_int (round_half_even (x / pow2 e)) * pow2 e)"

text \<open>
  The product \<^verbatim>\<open>x * y\<close> of two finite doubles: \<open>None\<close> stands for a result that is
  not finite.
\<close>

definition multiply :: "real \<Rightarrow> real \<Rightarrow> real option" where
  "multiply x y = (let r = fl (x * y) in if 2 ^ 1024 \<le> \<bar>r\<bar> then None else Some r)"

section \<open>Points and tiers (\<^verbatim>\<open>services/loyalty.ts\<close>, \<^verbatim>\<open>routes/transactions.ts\<close>)\<close>

definition TIER_MULTIPLIERS :: "PartnerTier \<Rightarrow> real" where
  "TIER_MULTIPLIERS t = (case t of BRONZE \<Rightarrow> 1 | SILVER \<Rightarrow> 3 / 2 | GOLD \<Rightarrow> 2)"

text \<open>
  \<^verbatim>\<open>calculatePoints(amount, multiplier)\<close>. The result is \<open>None\<close> when the product is
  not finite: \<^verbatim>\<open>Math.floor\<close> then returns it as it is.
\<close>

definition calculatePoints :: "real \<Rightarrow> real \<Rightarrow> int option" where
  "calculatePoints amt multiplier =
     (let basePoints = \<lfloor>amt\<rfloor>;
          finalPoints = map_option floor (multiply (of_int basePoints) multiplier)
      in finalPoints)"

text \<open>\<^verbatim>\<open>Math.round\<close>: the nearest integer, a half rounded towards positive infinity.\<close>

definition Math_round :: "real \<Rightarrow> int" where
  "Math_round x = \<lfloor>x + 1 / 2\<rfloor>"

definition SILVER_THRESHOLD :: int where
  "SILVER_THRESHOLD = 10000"

definition GOLD_THRESHOLD :: int where
  "GOLD_THRESHOLD = 50000"

text \<open>
  \<^verbatim>\<open>checkTierUpgrade(partnerId)\<close>: returns whether the tier was raised, with the
  database after the update.
\<close>

definition checkTierUpgrade :: "db \<Rightarrow> string \<Rightarrow> bool \<times> db" where
  "checkTierUpgrade s partnerId =
     (case partners s partnerId of
        None \<Rightarrow> (False, s)
      | Some partner \<Rightarrow>
          (case loyaltyPoints partner of
             None \<Rightarrow> (False, s)
           | Some lp \<Rightarrow>
               (let newTier =
                      (if lifetimeEarned lp \<ge> GOLD_THRESHOLD \<and> tier partner \<noteq> GOLD
                       then Some GOLD
                       else if lifetimeEarned lp \<ge> SILVER_THRESHOLD \<and> tier partner = BRONZE
                       then Some SILVER
                       else None)
                in case newTier of
                     Some t \<Rightarrow>
                       (True, s\<lparr>partners := (partners s)(partnerId \<mapsto> partner\<lparr>tier := t\<rparr>)\<rparr>)
                   | None \<Rightarrow> (False, s))))"

text \<open>
  \<^verbatim>\<open>awardBonusPoints(partnerId, points, reason)\<close>. \<^verbatim>\<open>BigInt(points)\<close> throws a
  \<^verbatim>\<open>RangeError\<close> when \<open>points\<close> is not a whole number; the update of an account that
  does not exist throws \<^verbatim>\<open>P2025\<close> and the transaction row created with it is rolled
  back. Both errors are rethrown to the caller.
\<close>

definition awardBonusPoints :: "db \<Rightarrow> string \<Rightarrow> real \<Rightarrow> string \<Rightarrow> (Error + unit) \<times> db" where
  "awardBonusPoints s partnerId points reason =
     (if of_int \<lfloor>points\<rfloor> \<noteq> points then (Inl RangeError, s)
      else
        (let transaction =
               \<lparr>tx_partnerId = partnerId, amount = 0, pointsEarned = \<lfloor>points\<rfloor>,
                tx_type = BONUS, description = Some reason\<rparr>
         in case updateLoyaltyPoints s partnerId
                   (\<lambda>lp. lp\<lparr>balance := balance lp + \<lfloor>points\<rfloor>,
                             lifetimeEarned := lifetimeEarned lp + \<lfloor>points\<rfloor>\<rparr>) of
              None \<Rightarrow> (Inl P2025, s)
            | Some (updatedPoints, s') \<Rightarrow>
                (Inr (), s'\<lparr>transactions := transactions s @ [transaction]\<rparr>)))"

section \<open>Recording a transaction (\<^verbatim>\<open>POST /transactions\<close>)\<close>

record CreateTransactionBody =
  body_amount :: real
  body_type :: TransactionType
  body_description :: "string option"

text \<open>
  The handler of \<^verbatim>\<open>router.post('/')\<close> in \<^verbatim>\<open>routes/transactions.ts\<close>. The schema
  asks for a positive amount. \<^verbatim>\<open>BigInt\<close> throws a \<^verbatim>\<open>RangeError\<close> on a number that
  is not finite, while the two queries are put together and before either runs. The
  answer carries the created transaction and the updated account.
\<close>

definition createTransaction ::
  "db \<Rightarrow> string \<Rightarrow> CreateTransactionBody \<Rightarrow> (Error + Transaction \<times> LoyaltyPoints) \<times> db" where
  "createTransaction s partnerId body =
     (if \<not> 0 < body_amount body then (Inl VALIDATION_ERROR, s)
      else
        (case partners s partnerId of
           None \<Rightarrow> (Inl NOT_FOUND, s)
         | Some partner \<Rightarrow>
             if status partner \<noteq> ACTIVE then (Inl ACCOUNT_NOT_ACTIVE, s)
             else
               (let multiplier = TIER_MULTIPLIERS (tier partner);
                    earned = calculatePoints (body_amount body) multiplier
                in case map_option Math_round (multiply (body_amount body) 100) of
                     None \<Rightarrow> (Inl RangeError, s)
                   | Some stored \<Rightarrow>
                       (case earned of
                          None \<Rightarrow> (Inl RangeError, s)
                        | Some points \<Rightarrow>
                            (let transaction =
                                   \<lparr>tx_partnerId = partnerId,
                                    amount = stored,
                                    pointsEarned = points,
                                    tx_type = body_type body,
                                    description = body_description body\<rparr>
                             in case updateLoyaltyPoints s partnerId
                                       (\<lambda>lp. lp\<lparr>balance := balance lp + points,
                                                 lifetimeEarned := lifetimeEarned lp + points\<rparr>) of
                                  None \<Rightarrow> (Inl P2025, s)
                                | Some (updatedPoints, s') \<Rightarrow>
                                    (Inr (transaction, updatedPoints),
                                     s'\<lparr>transactions := transactions s @ [transaction]\<rparr>))))))"

definition postTransaction ::
  "db \<Rightarrow> Authorization \<Rightarrow> CreateTransactionBody \<Rightarrow> (Error + Transaction \<times> LoyaltyPoints) \<times> db" where
  "postTransaction = partnerRoute createTransaction"

section \<open>Redeeming a reward (\<^verbatim>\<open>POST /loyalty/redeem\<close>)\<close>

text \<open>
  The handler of \<^verbatim>\<open>router.post('/redeem')\<close> in \<^verbatim>\<open>routes/loyalty.ts\<close>: the reward
  and the account are read first, the five checks follow in the order of the source,
  and the three writes are one \<^verbatim>\<open>prisma.$transaction\<close>. The answer carries the
  updated account and the created claim.
\<close>

definition redeem ::
  "db \<Rightarrow> string \<Rightarrow> string \<Rightarrow> (Error + LoyaltyPoints \<times> ClaimedReward) \<times> db" where
  "redeem s partnerId rewardId =
     (let reward = rewards s rewardId;
          points = findLoyaltyPoints s partnerId
      in case reward of
           None \<Rightarrow> (Inl REWARD_NOT_FOUND, s)
         | Some r \<Rightarrow>
             if \<not> isActive r then (Inl REWARD_INACTIVE, s)
             else if available r \<le> 0 then (Inl REWARD_OUT_OF_STOCK, s)
             else
               (case points of
                  None \<Rightarrow> (Inl POINTS_NOT_FOUND, s)
                | Some lp \<Rightarrow>
                    if balance lp < pointsRequired r then (Inl INSUFFICIENT_POINTS, s)
                    else
                      (case updateLoyaltyPoints s partnerId
                              (\<lambda>lp. lp\<lparr>balance := balance lp - pointsRequired r,
                                        lifetimeRedeemed := lifetimeRedeemed lp + pointsRequired r\<rparr>) of
                         None \<Rightarrow> (Inl P2025, s)
                       | Some (updatedPoints, s') \<Rightarrow>
                           (let claim =
                                  \<lparr>claim_partnerId = partnerId, claim_rewardId = rewardId,
                                   pointsSpent = pointsRequired r, claim_status = PENDING_CLAIM\<rparr>
                            in (Inr (updatedPoints, claim),
                                s'\<lparr>claimedRewards := claimedRewards s @ [claim],
                                   rewards :=
                                     (rewards s)(rewardId \<mapsto>
                                        r\<lparr>available := available r - 1,
                                          totalClaimed := totalClaimed r + 1\<rparr>)\<rparr>)))))"

definition postRedeem ::
  "db \<Rightarrow> Authorization \<Rightarrow> string \<Rightarrow> (Error + LoyaltyPoints \<times> ClaimedReward) \<times> db" where
  "postRedeem = partnerRoute redeem"

section \<open>Commission preview (\<^verbatim>\<open>contracts/wrappers/RevenueDistribution.ts\<close>)\<close>

text \<open>The constant \<^verbatim>\<open>CommissionRates\<close> of the wrapper: basis points, 10000 = 100%.\<close>

record CommissionRatesTable =
  Bronze :: int
  Silver :: int
  Gold :: int
  Platform :: int

definition CommissionRates :: CommissionRatesTable where
  "CommissionRates = \<lparr>Bronze = 300, Silver = 500, Gold = 700, Platform = 100\<rparr>"

text \<open>
  Modelled from the spec: \<open>rate[tier]\<close>, the commission rate of a tier. The wrapper
  passes the tier on as a number and the contract, whose source is not among the
  sources, looks the rate up; the spec names the rates Bronze, Silver and Gold, which are
  the entries of \<^verbatim>\<open>CommissionRates\<close>.
\<close>

definition rate :: "PartnerTier \<Rightarrow> int" where
  "rate t = (case t of BRONZE \<Rightarrow> Bronze CommissionRates
                     | SILVER \<Rightarrow> Silver CommissionRates
                     | GOLD \<Rightarrow> Gold CommissionRates)"

text \<open>
  Modelled from the spec: the getter \<^verbatim>\<open>calculate_commission_preview\<close> of the
  RevenueDistribution contract. The wrapper method \<^verbatim>\<open>calculateCommissionPreview\<close> only
  forwards \<open>amount\<close> and \<open>tier\<close> to it and reads back the pair
  \<open>(commission, platformFee)\<close>; the contract's own source is not among the sources.
  The spec gives \<open>commission = amount * rate[tier] / 10000\<close> and
  \<open>platformFee = amount * 100 / 10000\<close> with truncating integer division
  (\<open>sdiv\<close> rounds towards zero).
\<close>

definition calculateCommissionPreview :: "int \<Rightarrow> PartnerTier \<Rightarrow> int \<times> int" where
  "calculateCommissionPreview amt t =
     (amt * rate t sdiv 10000, amt * Platform CommissionRates sdiv 10000)"

section \<open>Properties: vocabulary\<close>

text \<open>The ledger invariant of one account, and its first half alone.\<close>

definition ledger_balanced :: "LoyaltyPoints \<Rightarrow> bool" where
  "ledger_balanced lp \<longleftrightarrow> balance lp = lifetimeEarned lp - lifetimeRedeemed lp"

definition ledger_ok :: "LoyaltyPoints \<Rightarrow> bool" where
  "ledger_ok lp \<longleftrightarrow>
     ledger_balanced lp \<and> 0 \<le> balance lp \<and> 0 \<le> lifetimeEarned lp \<and> 0 \<le> lifetimeRedeemed lp"

definition ledger_balanced_everywhere :: "db \<Rightarrow> bool" where
  "ledger_balanced_everywhere s \<longleftrightarrow>
     (\<forall>partnerId lp. findLoyaltyPoints s partnerId = Some lp \<longrightarrow> ledger_balanced lp)"

definition ledger_invariant :: "db \<Rightarrow> bool" where
  "ledger_invariant s \<longleftrightarrow>
     (\<forall>partnerId lp. findLoyaltyPoints s partnerId = Some lp \<longrightarrow> ledger_ok lp)"

text \<open>
  The account that \<^verbatim>\<open>POST /auth/register\<close> creates with a partner
  (\<^verbatim>\<open>loyaltyPoints: { create: { balance: 0n, lifetimeEarned: 0n, lifetimeRedeemed: 0n } }\<close>).
\<close>

definition initialLoyaltyPoints :: LoyaltyPoints where
  "initialLoyaltyPoints = \<lparr>balance = 0, lifetimeEarned = 0, lifetimeRedeemed = 0\<rparr>"

text \<open>
  Every reward asks for a non-negative number of points: \<^verbatim>\<open>createRewardSchema\<close> and
  \<^verbatim>\<open>updateRewardSchema\<close> accept \<^verbatim>\<open>pointsRequired\<close> from 100 on only.
\<close>

definition rewards_valid :: "db \<Rightarrow> bool" where
  "rewards_valid s \<longleftrightarrow>
     (\<forall>rewardId r. rewards s rewardId = Some r \<longrightarrow> 0 \<le> pointsRequired r)"

text \<open>A credit and a debit of an account, as the two updates of the routes write them.\<close>

definition credit :: "LoyaltyPoints \<Rightarrow> int \<Rightarrow> LoyaltyPoints" where
  "credit lp k = lp\<lparr>balance := balance lp + k, lifetimeEarned := lifetimeEarned lp + k\<rparr>"

definition debit :: "LoyaltyPoints \<Rightarrow> int \<Rightarrow> LoyaltyPoints" where
  "debit lp c = lp\<lparr>balance := balance lp - c, lifetimeRedeemed := lifetimeRedeemed lp + c\<rparr>"

text \<open>
  The core operations as requests, and a run of them: each request is served on the
  database the one before left; a request that fails leaves the database as it was.
\<close>

datatype Operation =
    RecordTransaction Authorization CreateTransactionBody
  | RedeemReward Authorization string
  | AwardBonus string real string
  | CheckTier string

fun perform :: "db \<Rightarrow> Operation \<Rightarrow> db" where
  "perform s (RecordTransaction auth body) = snd (postTransaction s auth body)"
| "perform s (RedeemReward auth rewardId) = snd (postRedeem s auth rewardId)"
| "perform s (AwardBonus partnerId points reason) =
     snd (awardBonusPoints s partnerId points reason)"
| "perform s (CheckTier partnerId) = snd (checkTierUpgrade s partnerId)"

fun run :: "db \<Rightarrow> Operation list \<Rightarrow> db" where
  "run s [] = s"
| "run s (operation # rest) = run (perform s operation) rest"

fun bonus_not_negative :: "Operation \<Rightarrow> bool" where
  "bonus_not_negative (AwardBonus partnerId points reason) = (0 \<le> points)"
| "bonus_not_negative _ = True"

fun tier_rank :: "PartnerTier \<Rightarrow> nat" where
  "tier_rank BRONZE = 0"
| "tier_rank SILVER = 1"
| "tier_rank GOLD = 2"

text \<open>
  The tier evaluation in the words of the specification: the tier a partner has after
  the evaluation, from the lifetime total and the current tier.
\<close>

definition evaluateUpgrade_spec :: "int \<Rightarrow> PartnerTier \<Rightarrow> PartnerTier" where
  "evaluateUpgrade_spec earned current =
     (if earned \<ge> 50000 \<and> current \<noteq> GOLD then GOLD
      else if earned \<ge> 10000 \<and> current = BRONZE then SILVER
      else current)"

subsection \<open>A small database for the examples\<close>

definition example_partner ::
  "PartnerTier \<Rightarrow> PartnerStatus \<Rightarrow> int \<Rightarrow> int \<Rightarrow> int \<Rightarrow> Partner" where
  "example_partner t st b e r =
     \<lparr>tier = t, status = st,
      loyaltyPoints = Some \<lparr>balance = b, lifetimeEarned = e, lifetimeRedeemed = r\<rparr>\<rparr>"

definition example_rewards :: "string \<rightharpoonup> Reward" where
  "example_rewards =
     [''r1'' \<mapsto> \<lparr>pointsRequired = 250, available = 1, maxClaims = 0, totalClaimed = 0,
                 isActive = True\<rparr>,
      ''r2'' \<mapsto> \<lparr>pointsRequired = 100, available = 0, maxClaims = 5, totalClaimed = 5,
                 isActive = False\<rparr>,
      ''r3'' \<mapsto> \<lparr>pointsRequired = 100, available = 0, maxClaims = 5, totalClaimed = 5,
                 isActive = True\<rparr>]"

definition example_db :: "Partner \<Rightarrow> db" where
  "example_db p =
     \<lparr>partners = [''p1'' \<mapsto> p], admins = Map.empty, rewards = example_rewards,
      transactions = [], claimedRewards = []\<rparr>"

definition p1_token :: Authorization where
  "p1_token = Bearer \<lparr>sub = ''p1'', jwt_type = partner_user\<rparr>"

definition purchase :: "real \<Rightarrow> CreateTransactionBody" where
  "purchase a = \<lparr>body_amount = a, body_type = PURCHASE, body_description = None\<rparr>"

section \<open>Lemmas on the rounding of doubles\<close>

lemma int_pow_le_real: "(2::int) ^ m \<le> n \<Longrightarrow> (2::real) ^ m \<le> of_int n"
proof -
  assume "(2::int) ^ m \<le> n"
  then have "(of_int ((2::int) ^ m) :: real) \<le> of_int n" by (simp only: of_int_le_iff)
  then show ?thesis by simp
qed

lemma int_less_pow_real: "n < (2::int) ^ m \<Longrightarrow> of_int n + 1 \<le> (2::real) ^ m"
proof -
  assume "n < (2::int) ^ m"
  then have "n + 1 \<le> (2::int) ^ m" by simp
  then have "(of_int (n + 1) :: real) \<le> of_int ((2::int) ^ m)" by (simp only: of_int_le_iff)
  then show ?thesis by simp
qed

lemma bitlen_pow2_bounds:
  assumes "0 < n"
  shows "pow2 (bitlen n - 1) \<le> of_int n" and "of_int n + 1 \<le> pow2 (bitlen n)"
    and "pow2 (- bitlen n) = 1 / pow2 (bitlen n)"
    and "pow2 (- bitlen n + 1) = 1 / pow2 (bitlen n - 1)"
proof -
  from bitlen_bounds [OF assms] have lo: "2 ^ nat (bitlen n - 1) \<le> n" and hi: "n < 2 ^ nat (bitlen n)"
    by simp_all
  have b1: "1 \<le> bitlen n" using assms bitlen_eq_zero_iff [of n] bitlen_nonneg [of n] by linarith
  then have p1: "pow2 (bitlen n - 1) = 2 ^ nat (bitlen n - 1)" and p2: "pow2 (bitlen n) = 2 ^ nat (bitlen n)"
    by (simp_all add: pow2_def)
  show "pow2 (bitlen n - 1) \<le> of_int n" using int_pow_le_real [OF lo] p1 by simp
  show "of_int n + 1 \<le> pow2 (bitlen n)" using int_less_pow_real [OF hi] p2 by simp
  show "pow2 (- bitlen n) = 1 / pow2 (bitlen n)" using b1 by (simp add: pow2_def)
  show "pow2 (- bitlen n + 1) = 1 / pow2 (bitlen n - 1)"
  proof (cases "bitlen n = 1")
    case True
    then show ?thesis by (simp add: pow2_def)
  next
    case False
    with b1 have "1 < bitlen n" by simp
    then show ?thesis by (simp add: pow2_def)
  qed
qed



lemma pow2_pos: "0 < pow2 e"
  by (simp add: pow2_def)

lemma binade_bounds:
  assumes "x \<noteq> 0"
  shows "pow2 (binade x) \<le> \<bar>x\<bar> \<and> \<bar>x\<bar> < pow2 (binade x + 1)"
proof (cases "1 \<le> \<bar>x\<bar>")
  case True
  let ?n = "\<lfloor>\<bar>x\<bar>\<rfloor>"
  have lo: "of_int ?n \<le> \<bar>x\<bar>" and hi: "\<bar>x\<bar> < of_int ?n + 1" by linarith+
  have pos: "0 < ?n" using True by linarith
  have b: "binade x = bitlen ?n - 1" using True by (simp only: binade_def if_True)
  from bitlen_pow2_bounds(1,2) [OF pos] lo hi
  have "pow2 (bitlen ?n - 1) \<le> \<bar>x\<bar>" "\<bar>x\<bar> < pow2 (bitlen ?n)" by linarith+
  then show ?thesis by (simp only: b) simp
next
  case False
  let ?y = "1 / \<bar>x\<bar>"
  let ?n = "\<lceil>?y\<rceil> - 1"
  have ax: "0 < \<bar>x\<bar>" "\<bar>x\<bar> < 1" using assms False by simp_all
  then have y1: "1 < ?y" by simp
  have lo: "of_int ?n < ?y" and hi: "?y \<le> of_int ?n + 1" by linarith+
  have pos: "0 < ?n" using y1 hi by linarith
  have b: "binade x = - bitlen ?n" using False by (simp only: binade_def if_False)
  from bitlen_pow2_bounds(1,2) [OF pos] lo hi
  have ylo: "pow2 (bitlen ?n - 1) < ?y" and yhi: "?y \<le> pow2 (bitlen ?n)" by linarith+
  have L: "1 / pow2 (bitlen ?n) \<le> \<bar>x\<bar>"
    using yhi ax(1) pow2_pos [of "bitlen ?n"] by (simp add: field_simps)
  have U: "\<bar>x\<bar> < 1 / pow2 (bitlen ?n - 1)"
    using ylo ax(1) pow2_pos [of "bitlen ?n - 1"] by (simp add: field_simps)
  from L U show ?thesis
    by (simp only: b bitlen_pow2_bounds(3,4) [OF pos])
qed

lemma pow2_powr: "pow2 e = 2 powr (of_int e)"
proof (cases "0 \<le> e")
  case True
  then show ?thesis by (simp add: pow2_def powr_real_of_int)
next
  case False
  then show ?thesis by (simp add: pow2_def powr_real_of_int field_simps)
qed

lemma pow2_add: "pow2 (a + b) = pow2 a * pow2 b"
  by (simp add: pow2_powr powr_add)

lemma pow2_diff: "pow2 (a - b) = pow2 a / pow2 b"
  by (simp add: pow2_powr powr_diff)

lemma pow2_nat: "pow2 (int n) = 2 ^ n"
  by (simp add: pow2_def)

lemma pow2_numeral: "pow2 (numeral w) = 2 ^ numeral w"
  by (simp add: pow2_def)

lemma pow2_less_iff: "pow2 a < pow2 b \<longleftrightarrow> a < b"
  by (simp add: pow2_powr)

lemma pow2_le_iff: "pow2 a \<le> pow2 b \<longleftrightarrow> a \<le> b"
  by (simp add: pow2_powr)



lemma round_half_even_error: "\<bar>of_int (round_half_even y) - y\<bar> \<le> 1 / 2"
  unfolding round_half_even_def Let_def by (auto; linarith)

lemma round_half_even_of_int: "round_half_even (of_int m) = m"
  by (simp add: round_half_even_def)

lemma round_half_even_nonneg: "0 \<le> y \<Longrightarrow> 0 \<le> round_half_even y"
  unfolding round_half_even_def Let_def by (auto simp: zero_le_floor; linarith)

lemma fl_nonneg: "0 \<le> x \<Longrightarrow> 0 \<le> fl x"
  unfolding fl_def Let_def
  by (intro mult_nonneg_nonneg) (simp_all add: round_half_even_nonneg pow2_pos less_imp_le)

lemma fl_0: "fl 0 = 0"
  by (simp add: fl_def round_half_even_def)

lemma fl_exact:
  assumes "\<bar>k\<bar> < 2 ^ 53" and "- 1074 \<le> j"
  shows "fl (of_int k * pow2 j) = of_int k * pow2 j"
proof (cases "k = 0")
  case True
  then show ?thesis by (simp add: fl_0)
next
  case False
  define x where "x = of_int k * pow2 j"
  define e where "e = max (binade x) (- 1022) - 52"
  have x0: "x \<noteq> 0" using False pow2_pos [of j] by (simp add: x_def)
  have "\<bar>x\<bar> = of_int \<bar>k\<bar> * pow2 j" using pow2_pos [of j] by (simp add: x_def abs_mult)
  also have "\<dots> < 2 ^ 53 * pow2 j"
  proof -
    have "(of_int \<bar>k\<bar> :: real) < 2 ^ 53" using assms(1)
      by (metis of_int_less_iff of_int_numeral of_int_power)
    then show ?thesis using pow2_pos [of j] by simp
  qed
  also have "\<dots> = pow2 (53 + j)" by (simp only: pow2_add pow2_numeral)
  finally have "\<bar>x\<bar> < pow2 (53 + j)" .
  with binade_bounds [OF x0] have "pow2 (binade x) < pow2 (53 + j)" by linarith
  then have "binade x < 53 + j" by (simp add: pow2_less_iff)
  with assms(2) have ej: "e \<le> j" by (simp add: e_def)
  then have "pow2 (j - e) = 2 ^ nat (j - e)" by (simp add: pow2_def)
  then have "pow2 j / pow2 e = 2 ^ nat (j - e)" by (simp only: pow2_diff)
  then have "of_int k * (pow2 j / pow2 e) = of_int k * 2 ^ nat (j - e)" by simp
  then have "x / pow2 e = of_int (k * 2 ^ nat (j - e))"
    by (simp add: x_def)
  then have "round_half_even (x / pow2 e) = k * 2 ^ nat (j - e)"
    by (simp only: round_half_even_of_int)
  then have "fl x = of_int (k * 2 ^ nat (j - e)) * pow2 e"
    by (simp add: fl_def e_def Let_def)
  also have "\<dots> = x / pow2 e * pow2 e"
    using \<open>x / pow2 e = of_int (k * 2 ^ nat (j - e))\<close> by simp
  also have "\<dots> = x" using pow2_pos [of e] by simp
  finally show ?thesis by (simp add: x_def)
qed

lemma fl_of_int: "\<bar>k\<bar> < 2 ^ 53 \<Longrightarrow> fl (of_int k) = of_int k"
  using fl_exact [of k 0] by (simp add: pow2_def)

lemma fl_half: "\<bar>k\<bar> < 2 ^ 53 \<Longrightarrow> fl (of_int k / 2) = of_int k / 2"
  using fl_exact [of k "- 1"] by (simp add: pow2_def)

lemma fl_error:
  "\<bar>fl x - x\<bar> \<le> \<bar>x\<bar> / 2 ^ 53 + 1 / 2 ^ 1075"
proof (cases "x = 0")
  case True
  then show ?thesis by (simp add: fl_0)
next
  case False
  define e where "e = max (binade x) (- 1022) - 52"
  define y where "y = x / pow2 e"
  have pe: "0 < pow2 e" by (rule pow2_pos)
  have "fl x - x = (of_int (round_half_even y) - y) * pow2 e"
    using pe by (simp add: fl_def e_def y_def Let_def algebra_simps)
  then have "\<bar>fl x - x\<bar> = \<bar>of_int (round_half_even y) - y\<bar> * pow2 e"
    using pe by (simp add: abs_mult)
  also have "\<dots> \<le> 1 / 2 * pow2 e"
    using round_half_even_error [of y] pe by (simp add: mult_right_mono)
  finally have err: "\<bar>fl x - x\<bar> \<le> pow2 e / 2" by simp
  show ?thesis
  proof (cases "- 1022 \<le> binade x")
    case True
    then have "e = binade x - 52" by (simp add: e_def)
    then have "pow2 e = pow2 (binade x) / 2 ^ 52" by (simp only: pow2_diff pow2_numeral)
    also have "\<dots> \<le> \<bar>x\<bar> / 2 ^ 52" using binade_bounds [OF False] by (simp add: divide_right_mono)
    finally have "pow2 e / 2 \<le> \<bar>x\<bar> / 2 ^ 53" by simp
    with err show ?thesis by (smt (verit) zero_le_divide_1_iff zero_le_numeral zero_le_power)
  next
    case False
    then have "e = - 1074" by (simp add: e_def)
    then have "pow2 e / 2 = 1 / 2 ^ 1075" by (simp add: pow2_def)
    with err show ?thesis by (smt (verit) abs_ge_zero divide_nonneg_pos zero_less_numeral zero_less_power)
  qed
qed

lemma fl_numeral: "(numeral w :: int) < 2 ^ 53 \<Longrightarrow> fl (numeral w) = numeral w"
  using fl_of_int [of "numeral w"] by simp

lemma fl_numeral_half: "(numeral w :: int) < 2 ^ 53 \<Longrightarrow> fl (numeral w / 2) = numeral w / 2"
  using fl_half [of "numeral w"] by simp

lemma fl_1: "fl 1 = 1"
  using fl_of_int [of 1] by simp

lemma multiply_Some: "multiply x y = Some r \<Longrightarrow> r = fl (x * y)"
  by (simp add: multiply_def Let_def split: if_splits)

section \<open>Lemmas on the operations\<close>

lemma multiplier_range: "1 \<le> TIER_MULTIPLIERS t \<and> TIER_MULTIPLIERS t \<le> 2"
  by (cases t) (simp_all add: TIER_MULTIPLIERS_def)

lemma calculatePoints_Some:
  assumes "calculatePoints a m = Some k"
  shows "k = \<lfloor>fl (of_int \<lfloor>a\<rfloor> * m)\<rfloor>"
  using assms multiply_Some [of "of_int \<lfloor>a\<rfloor>" m]
  by (auto simp: calculatePoints_def Let_def)

lemma calculatePoints_nonneg:
  assumes "0 < a" and "calculatePoints a (TIER_MULTIPLIERS t) = Some k"
  shows "0 \<le> k"
proof -
  have "0 \<le> (of_int \<lfloor>a\<rfloor> :: real) * TIER_MULTIPLIERS t"
    using assms(1) multiplier_range [of t] by simp
  then have "0 \<le> fl (of_int \<lfloor>a\<rfloor> * TIER_MULTIPLIERS t)" by (rule fl_nonneg)
  with calculatePoints_Some [OF assms(2)] show ?thesis by simp
qed

lemma createTransaction_Inl:
  "createTransaction s pid body = (Inl e, s') \<Longrightarrow> s' = s"
  by (auto simp: createTransaction_def Let_def split: option.splits if_splits)

lemma createTransaction_Inr:
  assumes "createTransaction s pid body = (Inr (tx, lp'), s')"
  shows "\<exists>p lp y k. partners s pid = Some p \<and> status p = ACTIVE \<and> 0 < body_amount body
           \<and> loyaltyPoints p = Some lp
           \<and> multiply (body_amount body) 100 = Some y
           \<and> calculatePoints (body_amount body) (TIER_MULTIPLIERS (tier p)) = Some k
           \<and> tx = \<lparr>tx_partnerId = pid, amount = Math_round y, pointsEarned = k,
                   tx_type = body_type body, description = body_description body\<rparr>
           \<and> tx_partnerId tx = pid \<and> amount tx = Math_round y \<and> pointsEarned tx = k
           \<and> lp' = lp\<lparr>balance := balance lp + k, lifetimeEarned := lifetimeEarned lp + k\<rparr>
           \<and> s' = s\<lparr>partners := (partners s)(pid \<mapsto> p\<lparr>loyaltyPoints := Some lp'\<rparr>),
                     transactions := transactions s @ [tx]\<rparr>"
  using assms
  by (auto simp: createTransaction_def updateLoyaltyPoints_def Let_def
      split: option.splits if_splits)

lemma perform_partner:
  assumes "partners s pid = Some p"
  shows "\<exists>p'. partners (perform s operation) pid = Some p' \<and> status p' = status p
            \<and> tier_rank (tier p) \<le> tier_rank (tier p')"
proof (cases operation)
  case (RecordTransaction auth body)
  then show ?thesis using assms
    by (auto simp: postTransaction_def partnerRoute_def createTransaction_def updateLoyaltyPoints_def Let_def
        split: sum.splits option.splits if_splits)
next
  case (RedeemReward auth rid)
  then show ?thesis using assms
    by (auto simp: postRedeem_def partnerRoute_def redeem_def updateLoyaltyPoints_def Let_def
        split: sum.splits option.splits if_splits)
next
  case (AwardBonus x1 x2 x3)
  then show ?thesis using assms
    by (auto simp: awardBonusPoints_def updateLoyaltyPoints_def Let_def
        split: sum.splits option.splits if_splits)
next
  case (CheckTier x)
  then show ?thesis using assms
    by (cases "tier p") (auto simp: checkTierUpgrade_def Let_def
        split: sum.splits option.splits if_splits)
qed

lemma credit_0: "credit lp 0 = lp"
  by (simp add: credit_def)

lemma updateLoyaltyPoints_Some:
  assumes "updateLoyaltyPoints s pid f = Some (u, s')"
  shows "\<exists>lp. findLoyaltyPoints s pid = Some lp \<and> u = f lp"
    and "findLoyaltyPoints s' q = (if q = pid then Some u else findLoyaltyPoints s q)"
    and "rewards s' = rewards s"
  using assms
  by (auto simp: updateLoyaltyPoints_def findLoyaltyPoints_def split: option.splits)

lemma createTransaction_account:
  assumes "findLoyaltyPoints (snd (createTransaction s pid body)) q = Some lp'"
  shows "\<exists>lp k. findLoyaltyPoints s q = Some lp \<and> 0 \<le> k \<and> lp' = credit lp k"
proof (cases "fst (createTransaction s pid body)")
  case (Inl e)
  then have "snd (createTransaction s pid body) = s"
    using createTransaction_Inl [of s pid body e] by (metis prod.collapse)
  with assms show ?thesis using credit_0 by (metis order_refl)
next
  case (Inr r)
  then obtain tx u s' where c: "createTransaction s pid body = (Inr (tx, u), s')"
    by (metis prod.collapse)
  from createTransaction_Inr [OF c] obtain p lp k where pos: "0 < body_amount body"
    and p: "partners s pid = Some p" and lp: "loyaltyPoints p = Some lp"
    and k: "calculatePoints (body_amount body) (TIER_MULTIPLIERS (tier p)) = Some k"
    and u: "u = lp\<lparr>balance := balance lp + k, lifetimeEarned := lifetimeEarned lp + k\<rparr>"
    and s': "s' = s\<lparr>partners := (partners s)(pid \<mapsto> p\<lparr>loyaltyPoints := Some u\<rparr>),
                     transactions := transactions s @ [tx]\<rparr>"
    by blast
  have k0: "0 \<le> k" using calculatePoints_nonneg [OF pos k] .
  show ?thesis
  proof (cases "q = pid")
    case True
    with assms c s' p lp u k0 show ?thesis
      by (auto simp: findLoyaltyPoints_def credit_def)
  next
    case False
    with assms c s' have "findLoyaltyPoints s q = Some lp'"
      by (simp add: findLoyaltyPoints_def)
    then show ?thesis using credit_0 by (metis order_refl)
  qed
qed

lemma partnerRoute_cases:
  "(\<exists>e. partnerRoute handler s auth body = (Inl e, s)) \<or>
   (\<exists>pid. partnerRoute handler s auth body = handler s pid body)"
  by (auto simp: partnerRoute_def split: sum.splits)

lemma redeem_account:
  assumes "findLoyaltyPoints (snd (redeem s pid rid)) q = Some lp'"
  shows "\<exists>lp. findLoyaltyPoints s q = Some lp \<and>
           (lp' = lp \<or> (\<exists>c. c \<le> balance lp \<and> (rewards_valid s \<longrightarrow> 0 \<le> c) \<and> lp' = debit lp c))"
proof (cases "fst (redeem s pid rid)")
  case (Inl e)
  then have "snd (redeem s pid rid) = s"
    by (auto simp: redeem_def Let_def split: option.splits if_splits)
  with assms show ?thesis by simp
next
  case (Inr res)
  then obtain r lp0 u s' where r: "rewards s rid = Some r"
    and lp0: "findLoyaltyPoints s pid = Some lp0" and bal: "pointsRequired r \<le> balance lp0"
    and u: "updateLoyaltyPoints s pid
          (\<lambda>lp. lp\<lparr>balance := balance lp - pointsRequired r,
                    lifetimeRedeemed := lifetimeRedeemed lp + pointsRequired r\<rparr>) = Some (u, s')"
    and s': "findLoyaltyPoints (snd (redeem s pid rid)) q = findLoyaltyPoints s' q"
    by (auto simp: redeem_def Let_def findLoyaltyPoints_def split: option.splits if_splits)
  show ?thesis
  proof (cases "q = pid")
    case True
    with updateLoyaltyPoints_Some [OF u] assms s' lp0 bal r
    show ?thesis by (auto simp: debit_def rewards_valid_def)
  next
    case False
    with updateLoyaltyPoints_Some(2) [OF u] assms s' show ?thesis by simp
  qed
qed

lemma awardBonusPoints_account:
  assumes "findLoyaltyPoints (snd (awardBonusPoints s pid points reason)) q = Some lp'"
  shows "\<exists>lp. findLoyaltyPoints s q = Some lp \<and> (lp' = lp \<or> lp' = credit lp \<lfloor>points\<rfloor>)"
proof (cases "fst (awardBonusPoints s pid points reason)")
  case (Inl e)
  then have "snd (awardBonusPoints s pid points reason) = s"
    by (auto simp: awardBonusPoints_def Let_def split: option.splits if_splits)
  with assms show ?thesis by simp
next
  case (Inr res)
  then obtain u s' where
    u: "updateLoyaltyPoints s pid
          (\<lambda>lp. lp\<lparr>balance := balance lp + \<lfloor>points\<rfloor>,
                    lifetimeEarned := lifetimeEarned lp + \<lfloor>points\<rfloor>\<rparr>) = Some (u, s')"
    and s': "findLoyaltyPoints (snd (awardBonusPoints s pid points reason)) q = findLoyaltyPoints s' q"
    by (auto simp: awardBonusPoints_def Let_def findLoyaltyPoints_def split: option.splits if_splits)
  show ?thesis
  proof (cases "q = pid")
    case True
    with updateLoyaltyPoints_Some [OF u] assms s'
    show ?thesis by (auto simp: credit_def)
  next
    case False
    with updateLoyaltyPoints_Some(2) [OF u] assms s' show ?thesis by simp
  qed
qed

lemma checkTierUpgrade_account:
  "findLoyaltyPoints (snd (checkTierUpgrade s pid)) q = findLoyaltyPoints s q"
  by (auto simp: checkTierUpgrade_def findLoyaltyPoints_def Let_def split: option.splits)

lemma perform_account:
  assumes "findLoyaltyPoints (perform s operation) q = Some lp'"
  shows "\<exists>lp. findLoyaltyPoints s q = Some lp \<and>
           (lp' = lp
            \<or> (\<exists>k. (bonus_not_negative operation \<longrightarrow> 0 \<le> k) \<and> lp' = credit lp k)
            \<or> (\<exists>c. c \<le> balance lp \<and> (rewards_valid s \<longrightarrow> 0 \<le> c) \<and> lp' = debit lp c))"
proof (cases operation)
  case (RecordTransaction auth body)
  from partnerRoute_cases [of createTransaction s auth body] show ?thesis
  proof (elim disjE exE)
    fix e assume "partnerRoute createTransaction s auth body = (Inl e, s)"
    with assms RecordTransaction show ?thesis by (simp add: postTransaction_def)
  next
    fix pid assume "partnerRoute createTransaction s auth body = createTransaction s pid body"
    with assms RecordTransaction
    have "findLoyaltyPoints (snd (createTransaction s pid body)) q = Some lp'"
      by (simp add: postTransaction_def)
    from createTransaction_account [OF this] show ?thesis by blast
  qed
next
  case (RedeemReward auth rid)
  from partnerRoute_cases [of redeem s auth rid] show ?thesis
  proof (elim disjE exE)
    fix e assume "partnerRoute redeem s auth rid = (Inl e, s)"
    with assms RedeemReward show ?thesis by (simp add: postRedeem_def)
  next
    fix pid assume "partnerRoute redeem s auth rid = redeem s pid rid"
    with assms RedeemReward
    have "findLoyaltyPoints (snd (redeem s pid rid)) q = Some lp'"
      by (simp add: postRedeem_def)
    from redeem_account [OF this] show ?thesis by blast
  qed
next
  case (AwardBonus pid points reason)
  with assms have "findLoyaltyPoints (snd (awardBonusPoints s pid points reason)) q = Some lp'"
    by simp
  from awardBonusPoints_account [OF this] obtain lp where lp: "findLoyaltyPoints s q = Some lp"
    and eff: "lp' = lp \<or> lp' = credit lp \<lfloor>points\<rfloor>" by blast
  have "bonus_not_negative operation \<longrightarrow> 0 \<le> \<lfloor>points\<rfloor>"
    using AwardBonus by simp
  with lp eff show ?thesis by blast
next
  case (CheckTier pid)
  with assms show ?thesis by (simp add: checkTierUpgrade_account)
qed

lemma ledger_balanced_credit: "ledger_balanced lp \<Longrightarrow> ledger_balanced (credit lp k)"
  by (simp add: ledger_balanced_def credit_def)

lemma ledger_balanced_debit: "ledger_balanced lp \<Longrightarrow> ledger_balanced (debit lp c)"
  by (simp add: ledger_balanced_def debit_def)

lemma ledger_ok_credit: "ledger_ok lp \<Longrightarrow> 0 \<le> k \<Longrightarrow> ledger_ok (credit lp k)"
  by (simp add: ledger_ok_def ledger_balanced_def credit_def)

lemma ledger_ok_debit: "ledger_ok lp \<Longrightarrow> 0 \<le> c \<Longrightarrow> c \<le> balance lp \<Longrightarrow> ledger_ok (debit lp c)"
  by (simp add: ledger_ok_def ledger_balanced_def debit_def)

lemma perform_rewards:
  assumes "rewards (perform s operation) rid = Some r'"
  shows "\<exists>r. rewards s rid = Some r \<and> pointsRequired r' = pointsRequired r"
proof (cases operation)
  case (RecordTransaction auth body)
  then show ?thesis using assms
    by (auto simp: postTransaction_def partnerRoute_def createTransaction_def
        updateLoyaltyPoints_def Let_def split: sum.splits option.splits if_splits)
next
  case (RedeemReward auth rid)
  then show ?thesis using assms
    by (auto simp: postRedeem_def partnerRoute_def redeem_def
        updateLoyaltyPoints_def Let_def split: sum.splits option.splits if_splits)
next
  case (AwardBonus x1 x2 x3)
  then show ?thesis using assms
    by (auto simp: awardBonusPoints_def updateLoyaltyPoints_def Let_def
        split: sum.splits option.splits if_splits)
next
  case (CheckTier x)
  then show ?thesis using assms
    by (auto simp: checkTierUpgrade_def Let_def
        split: sum.splits option.splits if_splits)
qed

lemma perform_rewards_valid:
  "rewards_valid s \<Longrightarrow> rewards_valid (perform s operation)"
  unfolding rewards_valid_def by (metis perform_rewards)

lemma perform_ledger_balanced:
  "ledger_balanced_everywhere s \<Longrightarrow> ledger_balanced_everywhere (perform s operation)"
  unfolding ledger_balanced_everywhere_def
  using perform_account ledger_balanced_credit ledger_balanced_debit by blast

lemma perform_ledger_invariant:
  assumes "ledger_invariant s" "rewards_valid s" "bonus_not_negative operation"
  shows "ledger_invariant (perform s operation)"
  unfolding ledger_invariant_def
proof (intro allI impI)
  fix q lp' assume "findLoyaltyPoints (perform s operation) q = Some lp'"
  from perform_account [OF this] assms(2,3) obtain lp where lp: "findLoyaltyPoints s q = Some lp"
    and eff: "lp' = lp \<or> (\<exists>k. 0 \<le> k \<and> lp' = credit lp k)
            \<or> (\<exists>c. c \<le> balance lp \<and> 0 \<le> c \<and> lp' = debit lp c)" by blast
  from lp assms(1) have "ledger_ok lp" by (simp add: ledger_invariant_def)
  with eff show "ledger_ok lp'" using ledger_ok_credit ledger_ok_debit by blast
qed

lemma run_ledger_balanced:
  "ledger_balanced_everywhere s \<Longrightarrow> ledger_balanced_everywhere (run s ops)"
  by (induction ops arbitrary: s) (simp_all add: perform_ledger_balanced)

lemma run_ledger_invariant:
  "ledger_invariant s \<Longrightarrow> rewards_valid s \<Longrightarrow> \<forall>operation \<in> set ops. bonus_not_negative operation
     \<Longrightarrow> ledger_invariant (run s ops)"
  by (induction ops arbitrary: s) (simp_all add: perform_ledger_invariant perform_rewards_valid)

lemma multiplier_product_exact:
  assumes "0 \<le> n" and "n \<le> 3002399751580330"
  shows "fl (of_int n * TIER_MULTIPLIERS t) = of_int n * TIER_MULTIPLIERS t"
proof -
  have p53: "(2::int) ^ 53 = 9007199254740992" by simp
  show ?thesis
  proof (cases t)
    case BRONZE
    have "\<bar>n\<bar> < 2 ^ 53" using assms p53 by linarith
    from fl_of_int [OF this] show ?thesis using BRONZE by (simp add: TIER_MULTIPLIERS_def)
  next
    case SILVER
    have "\<bar>3 * n\<bar> < 2 ^ 53" using assms p53 by linarith
    from fl_half [OF this] show ?thesis using SILVER
      by (simp add: TIER_MULTIPLIERS_def mult.commute)
  next
    case GOLD
    have "\<bar>2 * n\<bar> < 2 ^ 53" using assms p53 by linarith
    from fl_of_int [OF this] show ?thesis using GOLD
      by (simp add: TIER_MULTIPLIERS_def mult.commute)
  qed
qed

subsection \<open>The example database\<close>

lemma example_find [simp]:
  "findLoyaltyPoints (example_db (example_partner t st b e r)) pid =
     (if pid = ''p1'' then Some \<lparr>balance = b, lifetimeEarned = e, lifetimeRedeemed = r\<rparr> else None)"
  by (simp add: findLoyaltyPoints_def example_db_def example_partner_def)

lemma example_rewards_valid: "rewards_valid (example_db p)"
  by (simp add: rewards_valid_def example_db_def example_rewards_def)

lemmas example_defs = example_db_def example_partner_def example_rewards_def p1_token_def purchase_def

lemmas route_defs = postTransaction_def postRedeem_def partnerRoute_def authenticate_def
  requirePartner_def createTransaction_def redeem_def awardBonusPoints_def updateLoyaltyPoints_def
  findLoyaltyPoints_def checkTierUpgrade_def calculatePoints_def TIER_MULTIPLIERS_def Math_round_def
  multiply_def fl_numeral fl_numeral_half fl_1 fl_0 SILVER_THRESHOLD_def GOLD_THRESHOLD_def Let_def

lemma postTransaction_Inr:
  assumes "postTransaction s auth body = (Inr (tx, lp'), s')"
  shows "createTransaction s (tx_partnerId tx) body = (Inr (tx, lp'), s')"
proof -
  from partnerRoute_cases [of createTransaction s auth body]
  obtain pid where "partnerRoute createTransaction s auth body = createTransaction s pid body"
    using assms by (auto simp: postTransaction_def)
  with assms have c: "createTransaction s pid body = (Inr (tx, lp'), s')"
    by (simp add: postTransaction_def)
  from createTransaction_Inr [OF c] have "tx_partnerId tx = pid" by auto
  with c show ?thesis by simp
qed

lemma Math_round_bounds: "x - 1 / 2 < of_int (Math_round x) \<and> of_int (Math_round x) \<le> x + 1 / 2"
  unfolding Math_round_def by linarith

lemma Math_round_of_int: "Math_round (of_int k) = k"
  unfolding Math_round_def by linarith

section \<open>The ledger invariant\<close>

text \<open>
  C1, counterexample. The claim lets every award of bonus points preserve the ledger
  invariant. \<^verbatim>\<open>awardBonusPoints\<close> checks no sign: an award of \<open>-5\<close> points to a
  partner with the initial account leaves the balance and the lifetime total at \<open>-5\<close>.
\<close>

theorem negative_bonus_breaks_ledger:
  "findLoyaltyPoints (example_db (example_partner BRONZE ACTIVE 0 0 0)) ''p1''
     = Some initialLoyaltyPoints
   \<and> ledger_ok initialLoyaltyPoints
   \<and> findLoyaltyPoints
        (snd (awardBonusPoints (example_db (example_partner BRONZE ACTIVE 0 0 0)) ''p1'' (- 5)
               ''adjustment'')) ''p1''
     = Some \<lparr>balance = - 5, lifetimeEarned = - 5, lifetimeRedeemed = 0\<rparr>
   \<and> \<not> ledger_ok \<lparr>balance = - 5, lifetimeEarned = - 5, lifetimeRedeemed = 0\<rparr>"
  by (simp add: initialLoyaltyPoints_def ledger_ok_def ledger_balanced_def awardBonusPoints_def
      updateLoyaltyPoints_def findLoyaltyPoints_def example_db_def example_partner_def Let_def)

text \<open>
  C1, as amended. The initial account satisfies the ledger invariant. Every run of
  earning, redemption, bonus and tier-evaluation requests keeps
  \<open>balance = lifetimeEarned - lifetimeRedeemed\<close> for every partner; and it keeps the
  whole invariant (the equation, and the three counters non-negative) for every partner
  when no bonus award in it is negative and every reward asks for a non-negative number
  of points.
\<close>

theorem ledger_invariant_preserved:
  "ledger_ok initialLoyaltyPoints
   \<and> (ledger_balanced_everywhere s \<longrightarrow> ledger_balanced_everywhere (run s ops))
   \<and> (ledger_invariant s \<and> rewards_valid s \<and> (\<forall>operation \<in> set ops. bonus_not_negative operation)
        \<longrightarrow> ledger_invariant (run s ops))"
proof (intro conjI impI)
  show "ledger_ok initialLoyaltyPoints"
    by (simp add: initialLoyaltyPoints_def ledger_ok_def ledger_balanced_def)
next
  assume "ledger_balanced_everywhere s"
  then show "ledger_balanced_everywhere (run s ops)" by (rule run_ledger_balanced)
next
  assume "ledger_invariant s \<and> rewards_valid s \<and> (\<forall>operation \<in> set ops. bonus_not_negative operation)"
  then show "ledger_invariant (run s ops)" by (simp add: run_ledger_invariant)
qed

theorem ledger_invariant_preserved_witness:
  "ledger_invariant
     (run (example_db (example_partner BRONZE ACTIVE 0 0 0))
        [RecordTransaction p1_token (purchase 1000), RedeemReward p1_token ''r1'',
         AwardBonus ''p1'' 500 ''Referral bonus''])
   \<and> findLoyaltyPoints
       (run (example_db (example_partner BRONZE ACTIVE 0 0 0))
        [RecordTransaction p1_token (purchase 1000), RedeemReward p1_token ''r1'',
         AwardBonus ''p1'' 500 ''Referral bonus'']) ''p1''
     = Some \<lparr>balance = 1250, lifetimeEarned = 1500, lifetimeRedeemed = 250\<rparr>"
proof -
  let ?s = "example_db (example_partner BRONZE ACTIVE 0 0 0)"
  let ?ops = "[RecordTransaction p1_token (purchase 1000), RedeemReward p1_token ''r1'',
         AwardBonus ''p1'' 500 ''Referral bonus'']"
  have inv: "ledger_invariant ?s"
    by (simp add: ledger_invariant_def ledger_ok_def ledger_balanced_def)
  have ops: "\<forall>operation \<in> set ?ops. bonus_not_negative operation" by simp
  have final: "findLoyaltyPoints (run ?s ?ops) ''p1''
     = Some \<lparr>balance = 1250, lifetimeEarned = 1500, lifetimeRedeemed = 250\<rparr>"
    by (simp add: example_defs route_defs)
  from ledger_invariant_preserved [of ?s ?ops] inv example_rewards_valid ops final
  show ?thesis by blast
qed

section \<open>Redemption\<close>

text \<open>
  C2. The handler of a redemption checks, in this order and stopping at the first check
  that fails: the reward exists (\<open>REWARD_NOT_FOUND\<close>), it is active
  (\<open>REWARD_INACTIVE\<close>), it is in stock (\<open>REWARD_OUT_OF_STOCK\<close>), the partner
  has a loyalty account (\<open>POINTS_NOT_FOUND\<close>, the specification's AccountNotFound), the
  balance covers the points required (\<open>INSUFFICIENT_POINTS\<close>). Each error is returned
  whatever the later checks would say, with the database as it was; when all five hold
  the redemption succeeds.
\<close>

theorem redeem_validation_order:
  "(rewards s rid = None \<longrightarrow> redeem s pid rid = (Inl REWARD_NOT_FOUND, s))
   \<and> (\<forall>r. rewards s rid = Some r \<and> \<not> isActive r
          \<longrightarrow> redeem s pid rid = (Inl REWARD_INACTIVE, s))
   \<and> (\<forall>r. rewards s rid = Some r \<and> isActive r \<and> available r \<le> 0
          \<longrightarrow> redeem s pid rid = (Inl REWARD_OUT_OF_STOCK, s))
   \<and> (\<forall>r. rewards s rid = Some r \<and> isActive r \<and> 0 < available r
            \<and> findLoyaltyPoints s pid = None
          \<longrightarrow> redeem s pid rid = (Inl POINTS_NOT_FOUND, s))
   \<and> (\<forall>r lp. rewards s rid = Some r \<and> isActive r \<and> 0 < available r
            \<and> findLoyaltyPoints s pid = Some lp \<and> balance lp < pointsRequired r
          \<longrightarrow> redeem s pid rid = (Inl INSUFFICIENT_POINTS, s))
   \<and> (\<forall>r lp. rewards s rid = Some r \<and> isActive r \<and> 0 < available r
            \<and> findLoyaltyPoints s pid = Some lp \<and> pointsRequired r \<le> balance lp
          \<longrightarrow> (\<exists>res s'. redeem s pid rid = (Inr res, s')))"
  by (auto simp: redeem_def updateLoyaltyPoints_def findLoyaltyPoints_def Let_def
      split: option.splits)

theorem redeem_validation_order_witness:
  "redeem (example_db (example_partner BRONZE ACTIVE 100 100 0)) ''nobody'' ''r0''
     = (Inl REWARD_NOT_FOUND, example_db (example_partner BRONZE ACTIVE 100 100 0))
   \<and> redeem (example_db (example_partner BRONZE ACTIVE 100 100 0)) ''nobody'' ''r2''
     = (Inl REWARD_INACTIVE, example_db (example_partner BRONZE ACTIVE 100 100 0))
   \<and> redeem (example_db (example_partner BRONZE ACTIVE 100 100 0)) ''nobody'' ''r3''
     = (Inl REWARD_OUT_OF_STOCK, example_db (example_partner BRONZE ACTIVE 100 100 0))
   \<and> redeem (example_db (example_partner BRONZE ACTIVE 100 100 0)) ''nobody'' ''r1''
     = (Inl POINTS_NOT_FOUND, example_db (example_partner BRONZE ACTIVE 100 100 0))
   \<and> redeem (example_db (example_partner BRONZE ACTIVE 100 100 0)) ''p1'' ''r1''
     = (Inl INSUFFICIENT_POINTS, example_db (example_partner BRONZE ACTIVE 100 100 0))"
proof -
  let ?s = "example_db (example_partner BRONZE ACTIVE 100 100 0)"
  have r0: "rewards ?s ''r0'' = None"
    and r2: "rewards ?s ''r2'' = Some \<lparr>pointsRequired = 100, available = 0, maxClaims = 5,
               totalClaimed = 5, isActive = False\<rparr>"
    and r3: "rewards ?s ''r3'' = Some \<lparr>pointsRequired = 100, available = 0, maxClaims = 5,
               totalClaimed = 5, isActive = True\<rparr>"
    and r1: "rewards ?s ''r1'' = Some \<lparr>pointsRequired = 250, available = 1, maxClaims = 0,
               totalClaimed = 0, isActive = True\<rparr>"
    by (simp_all add: example_db_def example_rewards_def)
  have nobody: "findLoyaltyPoints ?s ''nobody'' = None"
    and p1: "findLoyaltyPoints ?s ''p1''
               = Some \<lparr>balance = 100, lifetimeEarned = 100, lifetimeRedeemed = 0\<rparr>"
    by simp_all
  show ?thesis
    using redeem_validation_order [of ?s "''r0''" "''nobody''"]
      redeem_validation_order [of ?s "''r2''" "''nobody''"]
      redeem_validation_order [of ?s "''r3''" "''nobody''"]
      redeem_validation_order [of ?s "''r1''" "''nobody''"]
      redeem_validation_order [of ?s "''r1''" "''p1''"]
      r0 r1 r2 r3 nobody p1
    by simp
qed

text \<open>
  C3. A redemption that succeeds is one update of the database: the account of the
  partner is debited by exactly \<open>pointsRequired\<close> (balance down, \<open>lifetimeRedeemed\<close>
  up), one claim with status pending and \<open>pointsSpent = pointsRequired\<close> is appended,
  and the reward has one less available and one more claimed; nothing else changes. A
  redemption that fails, in the handler or in the middleware before it, leaves the
  database as it was.
\<close>

theorem redeem_all_or_nothing:
  "(\<forall>lp' claim s'. redeem s pid rid = (Inr (lp', claim), s') \<longrightarrow>
      (\<exists>r p lp. rewards s rid = Some r \<and> partners s pid = Some p \<and> loyaltyPoints p = Some lp
         \<and> pointsRequired r \<le> balance lp
         \<and> lp' = lp\<lparr>balance := balance lp - pointsRequired r,
                     lifetimeRedeemed := lifetimeRedeemed lp + pointsRequired r\<rparr>
         \<and> claim = \<lparr>claim_partnerId = pid, claim_rewardId = rid,
                     pointsSpent = pointsRequired r, claim_status = PENDING_CLAIM\<rparr>
         \<and> s' = s\<lparr>partners := (partners s)(pid \<mapsto> p\<lparr>loyaltyPoints := Some lp'\<rparr>),
                   claimedRewards := claimedRewards s @ [claim],
                   rewards := (rewards s)(rid \<mapsto> r\<lparr>available := available r - 1,
                                                   totalClaimed := totalClaimed r + 1\<rparr>)\<rparr>))
   \<and> (\<forall>e s'. redeem s pid rid = (Inl e, s') \<longrightarrow> s' = s)
   \<and> (\<forall>e s'. postRedeem s auth rid = (Inl e, s') \<longrightarrow> s' = s)"
proof (intro conjI allI impI)
  fix lp' claim s' assume "redeem s pid rid = (Inr (lp', claim), s')"
  then show "\<exists>r p lp. rewards s rid = Some r \<and> partners s pid = Some p \<and> loyaltyPoints p = Some lp
         \<and> pointsRequired r \<le> balance lp
         \<and> lp' = lp\<lparr>balance := balance lp - pointsRequired r,
                     lifetimeRedeemed := lifetimeRedeemed lp + pointsRequired r\<rparr>
         \<and> claim = \<lparr>claim_partnerId = pid, claim_rewardId = rid,
                     pointsSpent = pointsRequired r, claim_status = PENDING_CLAIM\<rparr>
         \<and> s' = s\<lparr>partners := (partners s)(pid \<mapsto> p\<lparr>loyaltyPoints := Some lp'\<rparr>),
                   claimedRewards := claimedRewards s @ [claim],
                   rewards := (rewards s)(rid \<mapsto> r\<lparr>available := available r - 1,
                                                   totalClaimed := totalClaimed r + 1\<rparr>)\<rparr>"
    by (auto simp: redeem_def updateLoyaltyPoints_def findLoyaltyPoints_def Let_def
        split: option.splits if_splits)
next
  fix e s' assume "redeem s pid rid = (Inl e, s')"
  then show "s' = s"
    by (auto simp: redeem_def updateLoyaltyPoints_def findLoyaltyPoints_def Let_def
        split: option.splits if_splits)
next
  fix e s' assume a: "postRedeem s auth rid = (Inl e, s')"
  from partnerRoute_cases [of redeem s auth rid] show "s' = s"
  proof (elim disjE exE)
    fix e' assume "partnerRoute redeem s auth rid = (Inl e', s)"
    with a show ?thesis by (simp add: postRedeem_def)
  next
    fix q assume "partnerRoute redeem s auth rid = redeem s q rid"
    with a have "redeem s q rid = (Inl e, s')" by (simp add: postRedeem_def)
    then show ?thesis
      by (auto simp: redeem_def updateLoyaltyPoints_def findLoyaltyPoints_def Let_def
          split: option.splits if_splits)
  qed
qed

theorem redeem_all_or_nothing_witness:
  "redeem (example_db (example_partner BRONZE ACTIVE 300 300 0)) ''p1'' ''r1''
     = (Inr (\<lparr>balance = 50, lifetimeEarned = 300, lifetimeRedeemed = 250\<rparr>,
             \<lparr>claim_partnerId = ''p1'', claim_rewardId = ''r1'', pointsSpent = 250,
               claim_status = PENDING_CLAIM\<rparr>),
        (example_db (example_partner BRONZE ACTIVE 50 300 250))
          \<lparr>claimedRewards :=
             [\<lparr>claim_partnerId = ''p1'', claim_rewardId = ''r1'', pointsSpent = 250,
               claim_status = PENDING_CLAIM\<rparr>],
           rewards := example_rewards
             (''r1'' \<mapsto> \<lparr>pointsRequired = 250, available = 0, maxClaims = 0, totalClaimed = 1,
                          isActive = True\<rparr>)\<rparr>)
   \<and> redeem (example_db (example_partner BRONZE ACTIVE 100 100 0)) ''p1'' ''r1''
     = (Inl INSUFFICIENT_POINTS, example_db (example_partner BRONZE ACTIVE 100 100 0))
   \<and> findLoyaltyPoints
        (snd (postRedeem (example_db (example_partner BRONZE ACTIVE 100 100 0)) p1_token ''r1''))
        ''p1''
     = Some \<lparr>balance = 100, lifetimeEarned = 100, lifetimeRedeemed = 0\<rparr>"
proof -
  let ?rich = "example_db (example_partner BRONZE ACTIVE 300 300 0)"
  let ?poor = "example_db (example_partner BRONZE ACTIVE 100 100 0)"
  obtain lp' claim s' where ok: "redeem ?rich ''p1'' ''r1'' = (Inr (lp', claim), s')"
    by (simp add: example_defs route_defs)
  have poor: "redeem ?poor ''p1'' ''r1'' = (Inl INSUFFICIENT_POINTS, snd (redeem ?poor ''p1'' ''r1''))"
    by (simp add: example_defs route_defs)
  have route: "postRedeem ?poor p1_token ''r1''
      = (Inl INSUFFICIENT_POINTS, snd (postRedeem ?poor p1_token ''r1''))"
    by (simp add: example_defs route_defs)
  from redeem_all_or_nothing [of ?rich "''p1''" "''r1''"] ok
  have rich': "\<exists>r p lp. rewards ?rich ''r1'' = Some r \<and> partners ?rich ''p1'' = Some p
         \<and> loyaltyPoints p = Some lp
         \<and> lp' = lp\<lparr>balance := balance lp - pointsRequired r,
                     lifetimeRedeemed := lifetimeRedeemed lp + pointsRequired r\<rparr>
         \<and> claim = \<lparr>claim_partnerId = ''p1'', claim_rewardId = ''r1'',
                     pointsSpent = pointsRequired r, claim_status = PENDING_CLAIM\<rparr>
         \<and> s' = ?rich\<lparr>partners := (partners ?rich)(''p1'' \<mapsto> p\<lparr>loyaltyPoints := Some lp'\<rparr>),
                   claimedRewards := claimedRewards ?rich @ [claim],
                   rewards := (rewards ?rich)(''r1'' \<mapsto> r\<lparr>available := available r - 1,
                                                   totalClaimed := totalClaimed r + 1\<rparr>)\<rparr>"
    by blast
  then have first: "redeem ?rich ''p1'' ''r1''
     = (Inr (\<lparr>balance = 50, lifetimeEarned = 300, lifetimeRedeemed = 250\<rparr>,
             \<lparr>claim_partnerId = ''p1'', claim_rewardId = ''r1'', pointsSpent = 250,
               claim_status = PENDING_CLAIM\<rparr>),
        (example_db (example_partner BRONZE ACTIVE 50 300 250))
          \<lparr>claimedRewards :=
             [\<lparr>claim_partnerId = ''p1'', claim_rewardId = ''r1'', pointsSpent = 250,
               claim_status = PENDING_CLAIM\<rparr>],
           rewards := example_rewards
             (''r1'' \<mapsto> \<lparr>pointsRequired = 250, available = 0, maxClaims = 0, totalClaimed = 1,
                          isActive = True\<rparr>)\<rparr>)"
    unfolding ok by (auto simp: example_defs)
  from redeem_all_or_nothing [of ?poor "''p1''" "''r1''" p1_token] poor route
  have "snd (redeem ?poor ''p1'' ''r1'') = ?poor" "snd (postRedeem ?poor p1_token ''r1'') = ?poor"
    by metis+
  with poor first show ?thesis by simp
qed

section \<open>Tiers\<close>

text \<open>
  C4, the code at the input of the claim. A bronze partner with a lifetime total of 9999
  records a purchase of 1: the total becomes 10000 and the tier stays bronze, since the
  route never calls \<^verbatim>\<open>checkTierUpgrade\<close>; the next purchase, of 100, earns 100 points
  (multiplier 1.0). Only a call of \<^verbatim>\<open>checkTierUpgrade\<close> between the two raises the
  tier to silver, and then the purchase of 100 earns 150 points.
\<close>

theorem earning_across_threshold_keeps_tier:
  "postTransaction (example_db (example_partner BRONZE ACTIVE 9999 9999 0)) p1_token (purchase 1)
     = (Inr (\<lparr>tx_partnerId = ''p1'', amount = 100, pointsEarned = 1, tx_type = PURCHASE,
               description = None\<rparr>,
             \<lparr>balance = 10000, lifetimeEarned = 10000, lifetimeRedeemed = 0\<rparr>),
        (example_db (example_partner BRONZE ACTIVE 10000 10000 0))
          \<lparr>transactions :=
             [\<lparr>tx_partnerId = ''p1'', amount = 100, pointsEarned = 1, tx_type = PURCHASE,
               description = None\<rparr>]\<rparr>)
   \<and> fst (postTransaction (example_db (example_partner BRONZE ACTIVE 10000 10000 0)) p1_token
            (purchase 100))
     = Inr (\<lparr>tx_partnerId = ''p1'', amount = 10000, pointsEarned = 100, tx_type = PURCHASE,
              description = None\<rparr>,
            \<lparr>balance = 10100, lifetimeEarned = 10100, lifetimeRedeemed = 0\<rparr>)
   \<and> checkTierUpgrade (example_db (example_partner BRONZE ACTIVE 10000 10000 0)) ''p1''
     = (True, example_db (example_partner SILVER ACTIVE 10000 10000 0))
   \<and> fst (postTransaction (example_db (example_partner SILVER ACTIVE 10000 10000 0)) p1_token
            (purchase 100))
     = Inr (\<lparr>tx_partnerId = ''p1'', amount = 10000, pointsEarned = 150, tx_type = PURCHASE,
              description = None\<rparr>,
            \<lparr>balance = 10150, lifetimeEarned = 10150, lifetimeRedeemed = 0\<rparr>)"
  by (simp add: example_defs route_defs)

section \<open>Suspended and banned partners\<close>

text \<open>
  C5, counterexample. A suspended partner who records a purchase is refused with
  \<open>ACCOUNT_NOT_ACTIVE\<close>, which is not \<open>ACCOUNT_INVALID\<close>; a suspended partner who
  redeems a reward is served: the handler of the redemption reads no status, and the
  account, the reward and the claims change.
\<close>

theorem suspended_partner_not_account_invalid:
  "status (example_partner BRONZE SUSPENDED 300 300 0) = SUSPENDED
   \<and> postTransaction (example_db (example_partner BRONZE SUSPENDED 300 300 0)) p1_token
        (purchase 1000)
     = (Inl ACCOUNT_NOT_ACTIVE, example_db (example_partner BRONZE SUSPENDED 300 300 0))
   \<and> ACCOUNT_NOT_ACTIVE \<noteq> ACCOUNT_INVALID
   \<and> postRedeem (example_db (example_partner BRONZE SUSPENDED 300 300 0)) p1_token ''r1''
     = (Inr (\<lparr>balance = 50, lifetimeEarned = 300, lifetimeRedeemed = 250\<rparr>,
             \<lparr>claim_partnerId = ''p1'', claim_rewardId = ''r1'', pointsSpent = 250,
               claim_status = PENDING_CLAIM\<rparr>),
        (example_db (example_partner BRONZE SUSPENDED 50 300 250))
          \<lparr>claimedRewards :=
             [\<lparr>claim_partnerId = ''p1'', claim_rewardId = ''r1'', pointsSpent = 250,
               claim_status = PENDING_CLAIM\<rparr>],
           rewards := example_rewards
             (''r1'' \<mapsto> \<lparr>pointsRequired = 250, available = 0, maxClaims = 0, totalClaimed = 1,
                          isActive = True\<rparr>)\<rparr>)"
  by (simp add: example_defs route_defs)

text \<open>
  C5, as amended. For a banned partner both the earning request and the redemption
  request are refused with \<open>ACCOUNT_INVALID\<close>, by the authentication middleware, and
  the database stays as it was. For a suspended partner the earning request is refused
  and the database stays as it was: with \<open>ACCOUNT_NOT_ACTIVE\<close> when the body is valid,
  with \<open>VALIDATION_ERROR\<close> when the amount is not positive (the body is parsed first).
\<close>

theorem banned_and_suspended_rejected:
  assumes "partners s pid = Some p"
  shows "(status p = BANNED \<longrightarrow>
            postTransaction s (Bearer \<lparr>sub = pid, jwt_type = partner_user\<rparr>) body
              = (Inl ACCOUNT_INVALID, s)
          \<and> postRedeem s (Bearer \<lparr>sub = pid, jwt_type = partner_user\<rparr>) rid
              = (Inl ACCOUNT_INVALID, s))
       \<and> (status p = SUSPENDED \<longrightarrow>
            postTransaction s (Bearer \<lparr>sub = pid, jwt_type = partner_user\<rparr>) body
              = (Inl (if 0 < body_amount body then ACCOUNT_NOT_ACTIVE else VALIDATION_ERROR), s))"
  using assms
  by (simp add: postTransaction_def postRedeem_def partnerRoute_def authenticate_def
      requirePartner_def createTransaction_def)

theorem banned_and_suspended_rejected_witness:
  "postTransaction (example_db (example_partner GOLD BANNED 300 300 0)) p1_token (purchase 1000)
     = (Inl ACCOUNT_INVALID, example_db (example_partner GOLD BANNED 300 300 0))
   \<and> postRedeem (example_db (example_partner GOLD BANNED 300 300 0)) p1_token ''r1''
     = (Inl ACCOUNT_INVALID, example_db (example_partner GOLD BANNED 300 300 0))
   \<and> postTransaction (example_db (example_partner GOLD SUSPENDED 300 300 0)) p1_token (purchase 1000)
     = (Inl ACCOUNT_NOT_ACTIVE, example_db (example_partner GOLD SUSPENDED 300 300 0))"
proof -
  have p: "partners (example_db (example_partner t st b e r)) ''p1'' = Some (example_partner t st b e r)"
    for t st b e r by (simp add: example_db_def)
  show ?thesis
    using banned_and_suspended_rejected [OF p, of GOLD BANNED 300 300 0 "purchase 1000" "''r1''"]
      banned_and_suspended_rejected [OF p, of GOLD SUSPENDED 300 300 0 "purchase 1000" "''r1''"]
    by (simp add: example_partner_def p1_token_def purchase_def)
qed

section \<open>Points\<close>

text \<open>
  C6, counterexample. The claim gives the points of every amount and tier as
  \<open>floor (floor amount * multiplier)\<close>. The product is one of doubles and is rounded to
  the nearest double before the second floor: a silver partner who records a purchase
  of 3002399751580333, which is a double, earns 4503599627370500 points, where three
  halves of the amount, rounded down, are 4503599627370499.
\<close>

theorem silver_points_round_the_product:
  "fl 3002399751580333 = 3002399751580333
   \<and> fst (postTransaction (example_db (example_partner SILVER ACTIVE 0 0 0)) p1_token
            (purchase 3002399751580333))
     = Inr (\<lparr>tx_partnerId = ''p1'', amount = 300239975158033280,
              pointsEarned = 4503599627370500, tx_type = PURCHASE, description = None\<rparr>,
            \<lparr>balance = 4503599627370500, lifetimeEarned = 4503599627370500,
              lifetimeRedeemed = 0\<rparr>)
   \<and> \<lfloor>of_int \<lfloor>3002399751580333 :: real\<rfloor> * TIER_MULTIPLIERS SILVER\<rfloor> = 4503599627370499"
proof -
  have f1: "fl 300239975158033300 = 300239975158033280" by code_simp
  have f2: "fl (9007199254740999 / 2) = 4503599627370500" by code_simp
  show ?thesis
    by (simp add: example_defs route_defs f1 f2)
qed

text \<open>
  C6, as amended. The multipliers are 1, 1.5 and 2 for bronze, silver and gold. Every
  transaction that the route accepts earns \<open>floor (fl (floor amount * multiplier))\<close>
  points, the multiplier being that of the tier of the partner who records it and \<open>fl\<close>
  the rounding of the product to a double, and the account is credited with them. As long
  as the whole part of the amount is at most 3002399751580330 the rounding changes
  nothing: the points are \<open>floor (floor amount * multiplier)\<close>, the whole part of the
  amount for bronze, three halves of it rounded down for silver, twice it for gold. A
  bronze partner with an empty account who records a purchase of 1000 earns 1000 points
  and has a balance and a lifetime total of 1000.
\<close>

theorem points_formula:
  "TIER_MULTIPLIERS BRONZE = 1 \<and> TIER_MULTIPLIERS SILVER = 3 / 2 \<and> TIER_MULTIPLIERS GOLD = 2
   \<and> (\<forall>tx lp' s'. postTransaction s auth body = (Inr (tx, lp'), s') \<longrightarrow>
         (\<exists>p lp. partners s (tx_partnerId tx) = Some p \<and> loyaltyPoints p = Some lp
            \<and> pointsEarned tx
                = \<lfloor>fl (of_int \<lfloor>body_amount body\<rfloor> * TIER_MULTIPLIERS (tier p))\<rfloor>
            \<and> lp' = lp\<lparr>balance := balance lp + pointsEarned tx,
                        lifetimeEarned := lifetimeEarned lp + pointsEarned tx\<rparr>
            \<and> (\<lfloor>body_amount body\<rfloor> \<le> 3002399751580330 \<longrightarrow>
                  pointsEarned tx = \<lfloor>of_int \<lfloor>body_amount body\<rfloor> * TIER_MULTIPLIERS (tier p)\<rfloor>
                  \<and> pointsEarned tx
                      = (case tier p of
                           BRONZE \<Rightarrow> \<lfloor>body_amount body\<rfloor>
                         | SILVER \<Rightarrow> 3 * \<lfloor>body_amount body\<rfloor> div 2
                         | GOLD \<Rightarrow> 2 * \<lfloor>body_amount body\<rfloor>))))
   \<and> postTransaction (example_db (example_partner BRONZE ACTIVE 0 0 0)) p1_token (purchase 1000)
     = (Inr (\<lparr>tx_partnerId = ''p1'', amount = 100000, pointsEarned = 1000, tx_type = PURCHASE,
               description = None\<rparr>,
             \<lparr>balance = 1000, lifetimeEarned = 1000, lifetimeRedeemed = 0\<rparr>),
        (example_db (example_partner BRONZE ACTIVE 1000 1000 0))
          \<lparr>transactions :=
             [\<lparr>tx_partnerId = ''p1'', amount = 100000, pointsEarned = 1000, tx_type = PURCHASE,
               description = None\<rparr>]\<rparr>)"
proof (intro conjI allI impI)
  show "TIER_MULTIPLIERS BRONZE = 1" "TIER_MULTIPLIERS SILVER = 3 / 2" "TIER_MULTIPLIERS GOLD = 2"
    by (simp_all add: TIER_MULTIPLIERS_def)
next
  show "postTransaction (example_db (example_partner BRONZE ACTIVE 0 0 0)) p1_token (purchase 1000)
     = (Inr (\<lparr>tx_partnerId = ''p1'', amount = 100000, pointsEarned = 1000, tx_type = PURCHASE,
               description = None\<rparr>,
             \<lparr>balance = 1000, lifetimeEarned = 1000, lifetimeRedeemed = 0\<rparr>),
        (example_db (example_partner BRONZE ACTIVE 1000 1000 0))
          \<lparr>transactions :=
             [\<lparr>tx_partnerId = ''p1'', amount = 100000, pointsEarned = 1000, tx_type = PURCHASE,
               description = None\<rparr>]\<rparr>)"
    by (simp add: example_defs route_defs)
next
  fix tx lp' s'
  assume "postTransaction s auth body = (Inr (tx, lp'), s')"
  from createTransaction_Inr [OF postTransaction_Inr [OF this]]
  obtain p lp k where p: "partners s (tx_partnerId tx) = Some p" and lp: "loyaltyPoints p = Some lp"
    and pos: "0 < body_amount body"
    and k: "calculatePoints (body_amount body) (TIER_MULTIPLIERS (tier p)) = Some k"
    and tx: "pointsEarned tx = k"
    and lp': "lp' = lp\<lparr>balance := balance lp + k, lifetimeEarned := lifetimeEarned lp + k\<rparr>"
    by blast
  let ?n = "\<lfloor>body_amount body\<rfloor>"
  have pe: "pointsEarned tx = \<lfloor>fl (of_int ?n * TIER_MULTIPLIERS (tier p))\<rfloor>"
    using calculatePoints_Some [OF k] tx by simp
  have exact: "pointsEarned tx = \<lfloor>of_int ?n * TIER_MULTIPLIERS (tier p)\<rfloor>
      \<and> pointsEarned tx = (case tier p of BRONZE \<Rightarrow> ?n | SILVER \<Rightarrow> 3 * ?n div 2 | GOLD \<Rightarrow> 2 * ?n)"
    if small: "?n \<le> 3002399751580330"
  proof -
    have n0: "0 \<le> ?n" using pos by simp
    have p53: "(2::int) ^ 53 = 9007199254740992" by simp
    show ?thesis
    proof (cases "tier p")
      case BRONZE
      have "\<bar>?n\<bar> < 2 ^ 53" using n0 small p53 by linarith
      from fl_of_int [OF this] show ?thesis
        using pe BRONZE by (simp add: TIER_MULTIPLIERS_def)
    next
      case SILVER
      have "\<bar>3 * ?n\<bar> < 2 ^ 53" using n0 small p53 by linarith
      from fl_half [OF this] have "fl (of_int ?n * (3 / 2)) = of_int (3 * ?n) / of_int 2"
        by (simp add: mult.commute)
      moreover have "of_int ?n * (3 / 2 :: real) = of_int (3 * ?n) / of_int 2" by simp
      moreover have "\<lfloor>(of_int (3 * ?n) :: real) / of_int 2\<rfloor> = 3 * ?n div 2"
        by (rule floor_divide_of_int_eq)
      ultimately show ?thesis
        using pe SILVER by (simp only: TIER_MULTIPLIERS_def PartnerTier.case simp_thms)
    next
      case GOLD
      have "\<bar>2 * ?n\<bar> < 2 ^ 53" using n0 small p53 by linarith
      from fl_of_int [OF this] have "fl (of_int ?n * 2) = of_int (2 * ?n)"
        by (simp add: mult.commute)
      moreover have "of_int ?n * (2 :: real) = of_int (2 * ?n)" by simp
      ultimately show ?thesis
        using pe GOLD by (simp only: TIER_MULTIPLIERS_def PartnerTier.case floor_of_int simp_thms)
    qed
  qed
  from p lp pe lp' tx exact
  show "\<exists>p lp. partners s (tx_partnerId tx) = Some p \<and> loyaltyPoints p = Some lp
            \<and> pointsEarned tx
                = \<lfloor>fl (of_int \<lfloor>body_amount body\<rfloor> * TIER_MULTIPLIERS (tier p))\<rfloor>
            \<and> lp' = lp\<lparr>balance := balance lp + pointsEarned tx,
                        lifetimeEarned := lifetimeEarned lp + pointsEarned tx\<rparr>
            \<and> (\<lfloor>body_amount body\<rfloor> \<le> 3002399751580330 \<longrightarrow>
                  pointsEarned tx = \<lfloor>of_int \<lfloor>body_amount body\<rfloor> * TIER_MULTIPLIERS (tier p)\<rfloor>
                  \<and> pointsEarned tx
                      = (case tier p of
                           BRONZE \<Rightarrow> \<lfloor>body_amount body\<rfloor>
                         | SILVER \<Rightarrow> 3 * \<lfloor>body_amount body\<rfloor> div 2
                         | GOLD \<Rightarrow> 2 * \<lfloor>body_amount body\<rfloor>))"
    by blast
qed

theorem points_formula_witness:
  "fst (postTransaction (example_db (example_partner GOLD ACTIVE 0 0 0)) p1_token (purchase 1000))
     = Inr (\<lparr>tx_partnerId = ''p1'', amount = 100000, pointsEarned = 2000, tx_type = PURCHASE,
              description = None\<rparr>,
            \<lparr>balance = 2000, lifetimeEarned = 2000, lifetimeRedeemed = 0\<rparr>)
   \<and> fst (postTransaction (example_db (example_partner SILVER ACTIVE 0 0 0)) p1_token
            (purchase 1001))
     = Inr (\<lparr>tx_partnerId = ''p1'', amount = 100100, pointsEarned = 1501, tx_type = PURCHASE,
              description = None\<rparr>,
            \<lparr>balance = 1501, lifetimeEarned = 1501, lifetimeRedeemed = 0\<rparr>)
   \<and> fst (postTransaction (example_db (example_partner GOLD ACTIVE 0 0 0)) p1_token
            (purchase (3 / 2)))
     = Inr (\<lparr>tx_partnerId = ''p1'', amount = 150, pointsEarned = 2, tx_type = PURCHASE,
              description = None\<rparr>,
            \<lparr>balance = 2, lifetimeEarned = 2, lifetimeRedeemed = 0\<rparr>)
   \<and> \<lfloor>3 / 2 * TIER_MULTIPLIERS GOLD\<rfloor> = 3"
proof -
  let ?gold = "example_db (example_partner GOLD ACTIVE 0 0 0)"
  let ?silver = "example_db (example_partner SILVER ACTIVE 0 0 0)"
  obtain tx1 lp1 s1 where r1: "postTransaction ?gold p1_token (purchase 1000) = (Inr (tx1, lp1), s1)"
    and i1: "tx_partnerId tx1 = ''p1''" "amount tx1 = 100000" "tx_type tx1 = PURCHASE"
      "description tx1 = None"
    by (simp add: example_defs route_defs)
  obtain tx2 lp2 s2 where r2: "postTransaction ?silver p1_token (purchase 1001) = (Inr (tx2, lp2), s2)"
    and i2: "tx_partnerId tx2 = ''p1''" "amount tx2 = 100100" "tx_type tx2 = PURCHASE"
      "description tx2 = None"
    by (simp add: example_defs route_defs)
  obtain tx3 lp3 s3 where r3: "postTransaction ?gold p1_token (purchase (3 / 2)) = (Inr (tx3, lp3), s3)"
    and i3: "tx_partnerId tx3 = ''p1''" "amount tx3 = 150" "tx_type tx3 = PURCHASE"
      "description tx3 = None"
    by (simp add: example_defs route_defs)
  have pg: "partners ?gold ''p1'' = Some (example_partner GOLD ACTIVE 0 0 0)"
    and ps: "partners ?silver ''p1'' = Some (example_partner SILVER ACTIVE 0 0 0)"
    by (simp_all add: example_db_def)
  from points_formula [of ?gold p1_token "purchase 1000"] r1 i1 pg
  have e1: "pointsEarned tx1 = 2000" "lp1 = \<lparr>balance = 2000, lifetimeEarned = 2000, lifetimeRedeemed = 0\<rparr>"
    by (auto simp: example_partner_def purchase_def)
  from points_formula [of ?silver p1_token "purchase 1001"] r2 i2 ps
  have e2: "pointsEarned tx2 = 1501" "lp2 = \<lparr>balance = 1501, lifetimeEarned = 1501, lifetimeRedeemed = 0\<rparr>"
    by (auto simp: example_partner_def purchase_def)
  from points_formula [of ?gold p1_token "purchase (3 / 2)"] r3 i3 pg
  have e3: "pointsEarned tx3 = 2" "lp3 = \<lparr>balance = 2, lifetimeEarned = 2, lifetimeRedeemed = 0\<rparr>"
    by (auto simp: example_partner_def purchase_def)
  have "tx1 = \<lparr>tx_partnerId = ''p1'', amount = 100000, pointsEarned = 2000, tx_type = PURCHASE,
              description = None\<rparr>"
    "tx2 = \<lparr>tx_partnerId = ''p1'', amount = 100100, pointsEarned = 1501, tx_type = PURCHASE,
              description = None\<rparr>"
    "tx3 = \<lparr>tx_partnerId = ''p1'', amount = 150, pointsEarned = 2, tx_type = PURCHASE,
              description = None\<rparr>"
    using i1 i2 i3 e1(1) e2(1) e3(1) by simp_all
  with r1 r2 r3 e1(2) e2(2) e3(2) show ?thesis by (simp add: TIER_MULTIPLIERS_def)
qed

section \<open>Tier evaluation\<close>

text \<open>
  C7. For a partner with a loyalty account, \<^verbatim>\<open>checkTierUpgrade\<close> leaves the partner
  with the tier of the specification's evaluation: gold when the lifetime total is at
  least 50000 and the tier is not gold (from bronze as well), else silver when the total
  is at least 10000 and the tier is bronze, else the tier as it was. It returns whether
  the tier changed, and changes nothing else.
\<close>

theorem checkTierUpgrade_evaluates:
  assumes "partners s pid = Some p" and "loyaltyPoints p = Some lp"
  shows "checkTierUpgrade s pid =
           (evaluateUpgrade_spec (lifetimeEarned lp) (tier p) \<noteq> tier p,
            s\<lparr>partners := (partners s)(pid \<mapsto> p\<lparr>tier := evaluateUpgrade_spec (lifetimeEarned lp) (tier p)\<rparr>)\<rparr>)"
proof -
  have same: "s\<lparr>partners := (partners s)(pid \<mapsto> p\<lparr>tier := tier p\<rparr>)\<rparr> = s"
    using assms(1) by (simp add: map_upd_triv)
  show ?thesis
    using assms same
    by (cases "tier p")
      (auto simp: checkTierUpgrade_def evaluateUpgrade_spec_def SILVER_THRESHOLD_def
         GOLD_THRESHOLD_def Let_def)
qed

theorem checkTierUpgrade_evaluates_witness:
  "checkTierUpgrade (example_db (example_partner BRONZE ACTIVE 60000 60000 0)) ''p1''
     = (True, example_db (example_partner GOLD ACTIVE 60000 60000 0))
   \<and> checkTierUpgrade (example_db (example_partner BRONZE ACTIVE 10000 10000 0)) ''p1''
     = (True, example_db (example_partner SILVER ACTIVE 10000 10000 0))
   \<and> checkTierUpgrade (example_db (example_partner SILVER ACTIVE 49999 49999 0)) ''p1''
     = (False, example_db (example_partner SILVER ACTIVE 49999 49999 0))
   \<and> checkTierUpgrade (example_db (example_partner GOLD ACTIVE 0 60000 60000)) ''p1''
     = (False, example_db (example_partner GOLD ACTIVE 0 60000 60000))"
proof -
  have p: "partners (example_db (example_partner t st b e r)) ''p1'' = Some (example_partner t st b e r)"
    for t st b e r by (simp add: example_db_def)
  have lp: "loyaltyPoints (example_partner t st b e r)
      = Some \<lparr>balance = b, lifetimeEarned = e, lifetimeRedeemed = r\<rparr>"
    for t st b e r by (simp add: example_partner_def)
  show ?thesis
    using checkTierUpgrade_evaluates [OF p lp, of BRONZE ACTIVE 60000 60000 0]
      checkTierUpgrade_evaluates [OF p lp, of BRONZE ACTIVE 10000 10000 0]
      checkTierUpgrade_evaluates [OF p lp, of SILVER ACTIVE 49999 49999 0]
      checkTierUpgrade_evaluates [OF p lp, of GOLD ACTIVE 0 60000 60000]
    by (simp add: evaluateUpgrade_spec_def example_db_def example_partner_def)
qed

text \<open>
  C8. No run of earning, redemption, bonus and tier-evaluation requests lowers the tier
  of a partner; a gold partner stays gold.
\<close>

theorem tier_never_lowered:
  assumes "partners s pid = Some p"
  shows "\<exists>p'. partners (run s ops) pid = Some p' \<and> tier_rank (tier p) \<le> tier_rank (tier p')
            \<and> (tier p = GOLD \<longrightarrow> tier p' = GOLD)"
proof -
  have "\<exists>p'. partners (run s ops) pid = Some p' \<and> tier_rank (tier p) \<le> tier_rank (tier p')"
    using assms
  proof (induction ops arbitrary: s p)
    case Nil
    then show ?case by simp
  next
    case (Cons operation rest)
    from perform_partner [OF Cons.prems, of operation]
    obtain q where q: "partners (perform s operation) pid = Some q"
      and le: "tier_rank (tier p) \<le> tier_rank (tier q)" by blast
    from Cons.IH [OF q] obtain p' where "partners (run (perform s operation) rest) pid = Some p'"
      and "tier_rank (tier q) \<le> tier_rank (tier p')" by blast
    with le show ?case by auto
  qed
  then obtain p' where p': "partners (run s ops) pid = Some p'"
    and le: "tier_rank (tier p) \<le> tier_rank (tier p')" by blast
  have "tier p = GOLD \<longrightarrow> tier p' = GOLD"
    using le by (cases "tier p'") auto
  with p' le show ?thesis by blast
qed

theorem tier_never_lowered_witness:
  "map_option tier
     (partners
        (run (example_db (example_partner GOLD ACTIVE 300 300 0))
           [RecordTransaction p1_token (purchase 10), RedeemReward p1_token ''r1'',
            AwardBonus ''p1'' (- 5) ''adjustment'', CheckTier ''p1'']) ''p1'') = Some GOLD"
proof -
  let ?s = "example_db (example_partner GOLD ACTIVE 300 300 0)"
  have "partners ?s ''p1'' = Some (example_partner GOLD ACTIVE 300 300 0)"
    by (simp add: example_db_def)
  from tier_never_lowered [OF this]
  show ?thesis by (fastforce simp: example_partner_def)
qed

section \<open>Commission\<close>

text \<open>
  C9. The commission of a transaction is \<open>amount * rate / 10000\<close> and the platform fee
  \<open>amount * 100 / 10000\<close>, both rounded towards zero, with the rates 300, 500 and 700
  basis points of bronze, silver and gold: for an amount that is not negative they are
  the integer quotients, the largest integers whose 10000-fold is at most the product.
  A gold transaction of 100000 gives a commission of 7000 and a fee of 1000.
\<close>

theorem commission_preview:
  "calculateCommissionPreview 100000 GOLD = (7000, 1000)
   \<and> rate BRONZE = 300 \<and> rate SILVER = 500 \<and> rate GOLD = 700 \<and> Platform CommissionRates = 100
   \<and> (0 \<le> amt \<longrightarrow>
        calculateCommissionPreview amt t = (amt * rate t div 10000, amt * 100 div 10000)
        \<and> fst (calculateCommissionPreview amt t) * 10000 \<le> amt * rate t
        \<and> amt * rate t < (fst (calculateCommissionPreview amt t) + 1) * 10000
        \<and> snd (calculateCommissionPreview amt t) * 10000 \<le> amt * 100
        \<and> amt * 100 < (snd (calculateCommissionPreview amt t) + 1) * 10000)"
proof -
  have rates: "rate BRONZE = 300" "rate SILVER = 500" "rate GOLD = 700" "Platform CommissionRates = 100"
    by (simp_all add: rate_def CommissionRates_def)
  have pos: "0 < rate t" by (cases t) (simp_all add: rates)
  have gold: "calculateCommissionPreview 100000 GOLD = (7000, 1000)"
    by (simp add: calculateCommissionPreview_def rates signed_divide_int_def)
  have trunc: "0 \<le> k \<Longrightarrow> k sdiv 10000 = k div 10000" for k :: int
    by (cases "k = 0") (simp_all add: signed_divide_int_def)
  have bounds: "k div 10000 * 10000 \<le> k \<and> k < (k div 10000 + 1) * 10000" for k :: int
    by presburger
  {
    assume a: "0 \<le> amt"
    then have nn: "0 \<le> amt * rate t" "0 \<le> amt * 100" using pos by simp_all
    have eq: "calculateCommissionPreview amt t = (amt * rate t div 10000, amt * 100 div 10000)"
      using nn by (simp add: calculateCommissionPreview_def rates trunc)
    have "amt * rate t div 10000 * 10000 \<le> amt * rate t"
      "amt * rate t < (amt * rate t div 10000 + 1) * 10000"
      "amt * 100 div 10000 * 10000 \<le> amt * 100"
      "amt * 100 < (amt * 100 div 10000 + 1) * 10000"
      using bounds [of "amt * rate t"] bounds [of "amt * 100"] by simp_all
    with eq have "calculateCommissionPreview amt t = (amt * rate t div 10000, amt * 100 div 10000)
        \<and> fst (calculateCommissionPreview amt t) * 10000 \<le> amt * rate t
        \<and> amt * rate t < (fst (calculateCommissionPreview amt t) + 1) * 10000
        \<and> snd (calculateCommissionPreview amt t) * 10000 \<le> amt * 100
        \<and> amt * 100 < (snd (calculateCommissionPreview amt t) + 1) * 10000"
      by simp
  }
  with gold rates show ?thesis by blast
qed

theorem commission_preview_witness:
  "calculateCommissionPreview 12345 SILVER = (617, 123)
   \<and> calculateCommissionPreview 999 BRONZE = (29, 9)"
  using commission_preview [of 12345 SILVER] commission_preview [of 999 BRONZE]
  by simp

section \<open>What a recorded transaction stores\<close>

text \<open>
  C10, counterexample. The claim has the stored amount equal to \<open>round (a * 100)\<close> and
  the stored points equal to \<open>floor (floor a * multiplier)\<close>. Both products are rounded
  to a double first. For the double nearest to 0.015, which lies below it, the product
  with 100 is rounded to 1.5 and the route stores 2, where the product itself rounds to
  1. For the amount 3002399751580337 at silver the route stores the amount
  300239975158033728 and 4503599627370506 points, where \<open>round (a * 100)\<close> is
  300239975158033700 and \<open>floor (floor a * 1.5)\<close> is 4503599627370505.
\<close>

theorem stored_amount_rounds_the_double_product:
  "fl (1080863910568919 / 72057594037927936) = 1080863910568919 / 72057594037927936
   \<and> fst (postTransaction (example_db (example_partner BRONZE ACTIVE 0 0 0)) p1_token
            (purchase (1080863910568919 / 72057594037927936)))
     = Inr (\<lparr>tx_partnerId = ''p1'', amount = 2, pointsEarned = 0, tx_type = PURCHASE,
              description = None\<rparr>,
            \<lparr>balance = 0, lifetimeEarned = 0, lifetimeRedeemed = 0\<rparr>)
   \<and> Math_round (1080863910568919 / 72057594037927936 * 100) = 1
   \<and> fl 3002399751580337 = 3002399751580337
   \<and> fst (postTransaction (example_db (example_partner SILVER ACTIVE 0 0 0)) p1_token
            (purchase 3002399751580337))
     = Inr (\<lparr>tx_partnerId = ''p1'', amount = 300239975158033728,
              pointsEarned = 4503599627370506, tx_type = PURCHASE, description = None\<rparr>,
            \<lparr>balance = 4503599627370506, lifetimeEarned = 4503599627370506,
              lifetimeRedeemed = 0\<rparr>)
   \<and> Math_round (3002399751580337 * 100) = 300239975158033700
   \<and> \<lfloor>of_int \<lfloor>3002399751580337 :: real\<rfloor> * TIER_MULTIPLIERS SILVER\<rfloor> = 4503599627370505"
proof -
  have f0: "fl (1080863910568919 / 72057594037927936) = 1080863910568919 / 72057594037927936"
    by code_simp
  have f1: "fl (27021597764222975 / 18014398509481984) = 3 / 2" by code_simp
  have f2: "fl 300239975158033700 = 300239975158033728" by code_simp
  have f3: "fl (9007199254741011 / 2) = 4503599627370506" by code_simp
  show ?thesis
    by (simp add: example_defs route_defs f0 f1 f2 f3)
qed

text \<open>
  C10, as amended. A transaction request that is accepted, for an amount \<open>a\<close>, appends
  one transaction. Its amount is \<open>round (fl (a * 100))\<close>, \<open>fl\<close> being the rounding of the
  product to a double: within \<open>1/2 + a * 100 / 2^53 + 2^-1075\<close> of \<open>a * 100\<close>, and equal
  to \<open>round (a * 100)\<close> when the product is a double. Its points are
  \<open>floor (fl (floor a * multiplier))\<close>, with the multiplier of the partner's tier, which
  is \<open>floor (floor a * multiplier)\<close> when the whole part of \<open>a\<close> is at most
  3002399751580330. For a whole amount up to 90071992547409 the stored amount is a
  hundred times it, and the points are those of the stored amount divided by 100. The
  points are not those of the stored amount: from an amount of 1 on they are less than it.
\<close>

theorem stored_amount_and_points:
  assumes "postTransaction s auth body = (Inr (tx, lp'), s')"
  shows "\<exists>p. partners s (tx_partnerId tx) = Some p
           \<and> transactions s' = transactions s @ [tx]
           \<and> amount tx = Math_round (fl (body_amount body * 100))
           \<and> \<bar>of_int (amount tx) - body_amount body * 100\<bar>
               \<le> 1 / 2 + body_amount body * 100 / 2 ^ 53 + 1 / 2 ^ 1075
           \<and> (fl (body_amount body * 100) = body_amount body * 100 \<longrightarrow>
                 amount tx = Math_round (body_amount body * 100))
           \<and> pointsEarned tx
               = \<lfloor>fl (of_int \<lfloor>body_amount body\<rfloor> * TIER_MULTIPLIERS (tier p))\<rfloor>
           \<and> (\<lfloor>body_amount body\<rfloor> \<le> 3002399751580330 \<longrightarrow>
                 pointsEarned tx = \<lfloor>of_int \<lfloor>body_amount body\<rfloor> * TIER_MULTIPLIERS (tier p)\<rfloor>)
           \<and> (\<forall>k. body_amount body = of_int k \<and> k \<le> 90071992547409 \<longrightarrow>
                 amount tx = 100 * k
                 \<and> pointsEarned tx = \<lfloor>of_int (amount tx div 100) * TIER_MULTIPLIERS (tier p)\<rfloor>)
           \<and> (1 \<le> body_amount body \<longrightarrow> pointsEarned tx < amount tx)"
proof -
  let ?a = "body_amount body"
  from createTransaction_Inr [OF postTransaction_Inr [OF assms]]
  obtain p y k where p: "partners s (tx_partnerId tx) = Some p" and pos: "0 < ?a"
    and y: "multiply ?a 100 = Some y"
    and k: "calculatePoints ?a (TIER_MULTIPLIERS (tier p)) = Some k"
    and am: "amount tx = Math_round y" and pe0: "pointsEarned tx = k"
    and s': "s' = s\<lparr>partners := (partners s)(tx_partnerId tx \<mapsto> p\<lparr>loyaltyPoints := Some lp'\<rparr>),
                     transactions := transactions s @ [tx]\<rparr>"
    by blast
  let ?m = "TIER_MULTIPLIERS (tier p)"
  let ?n = "\<lfloor>?a\<rfloor>"
  have app: "transactions s' = transactions s @ [tx]" by (simp add: s')
  have yfl: "y = fl (?a * 100)" using multiply_Some [OF y] .
  have am': "amount tx = Math_round (fl (?a * 100))" using am yfl by simp
  have pe: "pointsEarned tx = \<lfloor>fl (of_int ?n * ?m)\<rfloor>"
    using calculatePoints_Some [OF k] pe0 by simp
  have n0: "0 \<le> ?n" using pos by simp
  have yerr: "\<bar>y - ?a * 100\<bar> \<le> ?a * 100 / 2 ^ 53 + 1 / 2 ^ 1075"
    using fl_error [of "?a * 100"] pos by (simp add: yfl)
  have near: "\<bar>of_int (amount tx) - ?a * 100\<bar> \<le> 1 / 2 + ?a * 100 / 2 ^ 53 + 1 / 2 ^ 1075"
    using yerr Math_round_bounds [of y] am by linarith
  have exact: "pointsEarned tx = \<lfloor>of_int ?n * ?m\<rfloor>" if "?n \<le> 3002399751580330"
    using multiplier_product_exact [OF n0 that] pe by simp
  have whole: "amount tx = 100 * j \<and> pointsEarned tx = \<lfloor>of_int (amount tx div 100) * ?m\<rfloor>"
    if j: "?a = of_int j \<and> j \<le> 90071992547409" for j
  proof -
    have j0: "0 < j" using pos j by simp
    have "\<bar>j * 100\<bar> < 2 ^ 53" using j j0 by simp
    from fl_of_int [OF this] have "fl (?a * 100) = of_int (j * 100)" using j by simp
    then have a100: "amount tx = 100 * j" using am' by (simp only: Math_round_of_int)
    have "?n = j" using j by simp
    moreover have "pointsEarned tx = \<lfloor>of_int ?n * ?m\<rfloor>" using j \<open>?n = j\<close> by (intro exact) simp
    ultimately show ?thesis using a100 by simp
  qed
  have less: "pointsEarned tx < amount tx" if one: "1 \<le> ?a"
  proof -
    let ?P = "of_int ?n * ?m"
    have P0: "0 \<le> ?P" using n0 multiplier_range [of "tier p"] by simp
    have "?P \<le> of_int ?n * 2"
      using n0 multiplier_range [of "tier p"] by (intro mult_left_mono) simp_all
    also have "\<dots> \<le> ?a * 2" by simp
    finally have P2: "?P \<le> ?a * 2" .
    have "\<bar>fl ?P - ?P\<bar> \<le> ?P / 2 ^ 53 + 1 / 2 ^ 1075"
      using fl_error [of ?P] P0 by simp
    then have "fl ?P \<le> ?P + ?P / 2 ^ 53 + 1 / 2 ^ 1075" by linarith
    moreover have "?P / 2 ^ 53 \<le> ?a * 2 / 2 ^ 53" by (rule divide_right_mono [OF P2]) simp
    ultimately have up: "fl ?P \<le> ?a * 2 + ?a * 2 / 2 ^ 53 + 1 / 2 ^ 1075" using P2 by linarith
    have "of_int (pointsEarned tx) \<le> fl ?P" using pe by simp
    with up have k_up: "of_int (pointsEarned tx) \<le> ?a * 2 + ?a * 2 / 2 ^ 53 + 1 / 2 ^ 1075"
      by linarith
    have lo: "?a * 100 - (1 / 2 + ?a * 100 / 2 ^ 53 + 1 / 2 ^ 1075) \<le> of_int (amount tx)"
      using near by linarith
    have tiny: "(1 :: real) / 2 ^ 1075 \<le> 1 / 8"
      by (intro divide_left_mono) (simp_all add: numeral_le_iff)
    have frac: "?a * 100 / 2 ^ 53 \<le> ?a" "?a * 2 / 2 ^ 53 \<le> ?a"
      using pos by (simp_all add: field_simps)
    have "(of_int (pointsEarned tx) :: real) < of_int (amount tx)"
      using k_up lo tiny frac one by linarith
    then show ?thesis by simp
  qed
  from p app am' near pe exact whole less show ?thesis
    by (intro exI [of _ p]) (simp add: am')
qed

theorem stored_amount_and_points_witness:
  "fst (postTransaction (example_db (example_partner SILVER ACTIVE 0 0 0)) p1_token
          (purchase (51 / 2)))
     = Inr (\<lparr>tx_partnerId = ''p1'', amount = 2550, pointsEarned = 37, tx_type = PURCHASE,
              description = None\<rparr>,
            \<lparr>balance = 37, lifetimeEarned = 37, lifetimeRedeemed = 0\<rparr>)
   \<and> fl (51 / 2) = 51 / 2
   \<and> Math_round (51 / 2 * 100) = 2550
   \<and> \<lfloor>of_int \<lfloor>51 / 2 :: real\<rfloor> * TIER_MULTIPLIERS SILVER\<rfloor> = 37
   \<and> fst (postTransaction (example_db (example_partner GOLD ACTIVE 0 0 0)) p1_token
            (purchase 250))
     = Inr (\<lparr>tx_partnerId = ''p1'', amount = 25000, pointsEarned = 500, tx_type = PURCHASE,
              description = None\<rparr>,
            \<lparr>balance = 500, lifetimeEarned = 500, lifetimeRedeemed = 0\<rparr>)"
proof -
  let ?gold = "example_db (example_partner GOLD ACTIVE 0 0 0)"
  let ?silver = "example_db (example_partner SILVER ACTIVE 0 0 0)"
  obtain tx1 lp1 s1
    where r1: "postTransaction ?silver p1_token (purchase (51 / 2)) = (Inr (tx1, lp1), s1)"
    and i1: "tx_partnerId tx1 = ''p1''" "tx_type tx1 = PURCHASE" "description tx1 = None"
      "lp1 = \<lparr>balance = 37, lifetimeEarned = 37, lifetimeRedeemed = 0\<rparr>"
    by (simp add: example_defs route_defs)
  obtain tx2 lp2 s2
    where r2: "postTransaction ?gold p1_token (purchase 250) = (Inr (tx2, lp2), s2)"
    and i2: "tx_partnerId tx2 = ''p1''" "tx_type tx2 = PURCHASE" "description tx2 = None"
      "lp2 = \<lparr>balance = 500, lifetimeEarned = 500, lifetimeRedeemed = 0\<rparr>"
    by (simp add: example_defs route_defs)
  have pg: "partners ?gold ''p1'' = Some (example_partner GOLD ACTIVE 0 0 0)"
    and ps: "partners ?silver ''p1'' = Some (example_partner SILVER ACTIVE 0 0 0)"
    by (simp_all add: example_db_def)
  have half: "fl (51 / 2) = 51 / 2" by code_simp
  from stored_amount_and_points [OF r1] i1 ps
  have e1: "amount tx1 = 2550" "pointsEarned tx1 = 37"
    by (auto simp: example_partner_def purchase_def TIER_MULTIPLIERS_def Math_round_def fl_numeral)
  from stored_amount_and_points [OF r2] i2 pg
  have e2: "amount tx2 = 25000" "pointsEarned tx2 = 500"
    by (auto simp: example_partner_def purchase_def TIER_MULTIPLIERS_def)
  have "tx1 = \<lparr>tx_partnerId = ''p1'', amount = 2550, pointsEarned = 37, tx_type = PURCHASE,
              description = None\<rparr>"
    "tx2 = \<lparr>tx_partnerId = ''p1'', amount = 25000, pointsEarned = 500, tx_type = PURCHASE,
              description = None\<rparr>"
    using i1 i2 e1 e2 by simp_all
  with r1 r2 i1(4) i2(4) half show ?thesis by (simp add: TIER_MULTIPLIERS_def Math_round_def)
qed

end
